theory Spec2Isabelle
  imports Main "HOL-Library.Word"
begin

unbundle bit_operations_syntax

section \<open>Failure exits\<close>

text \<open>
  The layer has three ways of not returning: \<open>error(...); fatal();\<close> (a diagnostic
  followed by process exit), a failing \<open>assert\<close>, and a dereference of a null
  pointer. Each is a value of \<open>error\<close>; an operation returns its outcome together
  with the state reached when it stopped.
\<close>

datatype error =
    Fatal string
  | AssertionFailed string
  | NullDereference

definition PolicyViolation :: error where
  "PolicyViolation = Fatal ''No implicit runtime calls allowed with -noruntime option enabled''"

section \<open>The code generator's structural types, attributes and modules\<close>

datatype LLType =
    VoidTy
  | IntegerTy nat
  | FloatTy
  | DoubleTy
  | X86_FP80Ty
  | PointerTy LLType
  | StructTy "LLType list"
  | FunctionTy LLType "LLType list" bool
  | OpaqueTy
  | NamedTy string

datatype Attribute = NoAlias | NoUnwind | ReadOnly | ReadNone | NoCapture

text \<open>
  An \<open>llvm::AttrListPtr\<close> is a uniqued table from a slot index to the attributes of
  that slot: index 0 is the return value, index \<open>i > 0\<close> the i-th parameter, and
  index \<open>~0U\<close> the function itself. Two lists are equal exactly when they hold the
  same (index, attribute) pairs.
\<close>

type_synonym AttrListPtr = "(32 word \<times> Attribute) set"

definition NoAttrs :: AttrListPtr where
  "NoAttrs = {}"

definition addAttr :: "AttrListPtr \<Rightarrow> 32 word \<Rightarrow> Attribute \<Rightarrow> AttrListPtr" where
  "addAttr L idx a = insert (idx, a) L"

definition FunctionIndex :: "32 word" where
  "FunctionIndex = NOT 0"

datatype Linkage = ExternalLinkage | InternalLinkage

record LLFunction =
  fn_name :: string
  fn_type :: LLType
  fn_linkage :: Linkage
  fn_attrs :: AttrListPtr

record GlobalVariable =
  gv_name :: string
  gv_valueType :: LLType
  gv_isConstant :: bool
  gv_linkage :: Linkage
  gv_hasInitializer :: bool

text \<open>
  A module owns a list of functions and a list of global variables, and one symbol
  table over both: a name denotes at most one value of the module, a function or a
  global variable.
\<close>

record LLModule =
  mod_name :: string
  mod_functions :: "LLFunction list"
  mod_globals :: "GlobalVariable list"

datatype GlobalValue = FunctionValue LLFunction | VariableValue GlobalVariable

definition new_Module :: "string \<Rightarrow> LLModule" where
  "new_Module n = \<lparr>mod_name = n, mod_functions = [], mod_globals = []\<rparr>"

text \<open>\<open>Module::getNamedValue\<close>: the value the symbol table holds under a name.\<close>

definition getNamedValue :: "LLModule \<Rightarrow> string \<Rightarrow> GlobalValue option" where
  "getNamedValue m n =
     (case find (\<lambda>f. fn_name f = n) (mod_functions m) of
        Some f \<Rightarrow> Some (FunctionValue f)
      | None \<Rightarrow> map_option VariableValue (find (\<lambda>g. gv_name g = n) (mod_globals m)))"

text \<open>
  \<open>Module::getFunction\<close> and \<open>Module::getNamedGlobal\<close>: the named value, when it
  is a function, respectively a global variable, and null otherwise.
\<close>

definition getFunction :: "LLModule \<Rightarrow> string \<Rightarrow> LLFunction option" where
  "getFunction m n =
     (case getNamedValue m n of
        Some (FunctionValue f) \<Rightarrow> Some f
      | Some (VariableValue g) \<Rightarrow> None
      | None \<Rightarrow> None)"

definition getNamedGlobal :: "LLModule \<Rightarrow> string \<Rightarrow> GlobalVariable option" where
  "getNamedGlobal m n =
     (case getNamedValue m n of
        Some (VariableValue g) \<Rightarrow> Some g
      | Some (FunctionValue f) \<Rightarrow> None
      | None \<Rightarrow> None)"

fun hasLocalLinkage :: "GlobalValue \<Rightarrow> bool" where
  "hasLocalLinkage (FunctionValue f) = (fn_linkage f = InternalLinkage)"
| "hasLocalLinkage (VariableValue g) = (gv_linkage g = InternalLinkage)"

text \<open>
  \<open>F->setName(u)\<close> on a value of the module that is listed under the name \<open>n\<close>.
\<close>

fun setName :: "GlobalValue \<Rightarrow> string \<Rightarrow> string \<Rightarrow> LLModule \<Rightarrow> LLModule" where
  "setName (FunctionValue f) n u m =
     m\<lparr>mod_functions :=
         map (\<lambda>x. if fn_name x = n then x\<lparr>fn_name := u\<rparr> else x) (mod_functions m)\<rparr>"
| "setName (VariableValue g) n u m =
     m\<lparr>mod_globals :=
         map (\<lambda>x. if gv_name x = n then x\<lparr>gv_name := u\<rparr> else x) (mod_globals m)\<rparr>"

definition FunctionType_get :: "LLType \<Rightarrow> LLType list \<Rightarrow> bool \<Rightarrow> LLType" where
  "FunctionType_get r ps va = FunctionTy r ps va"

text \<open>
  \<open>llvm::Function::Create(fty, linkage, name, M)\<close> followed by an optional
  \<open>->setAttributes(A)\<close>: the new function is appended to the module. (LLVM would
  rename a function whose name is taken; \<open>runtime_names_distinct\<close> below shows that
  the catalogue never gets there.)
\<close>

definition Function_Create ::
  "LLType \<Rightarrow> Linkage \<Rightarrow> string \<Rightarrow> AttrListPtr \<Rightarrow> LLModule \<Rightarrow> LLModule" where
  "Function_Create fty l n A m =
     m\<lparr>mod_functions := mod_functions m @
         [\<lparr>fn_name = n, fn_type = fty, fn_linkage = l, fn_attrs = A\<rparr>]\<rparr>"

text \<open>
  \<open>llvm::cast<llvm::Function>(target->getOrInsertFunction(name, fnty))\<close>. LLVM's
  \<open>Module::getOrInsertFunction\<close> looks the name up in the symbol table and has four
  outcomes. (1) No value has the name: a prototype with external linkage and no
  attributes is added and returned. (2) A value has the name and local linkage: that
  value is renamed and a new prototype is inserted as in (1). (3) A value has the name
  and the right type: it is returned. (4) A value has the name and another type: a
  bitcast constant is returned. The cast at the call site asserts on everything that
  is not a function: on the bitcast constant of (4), and on a global variable in (3)
  and (4) alike. The name a renamed value gets is LLVM's choice, \<open>uniq\<close> here.
\<close>

definition getOrInsertFunction ::
  "(LLModule \<Rightarrow> string \<Rightarrow> string) \<Rightarrow> LLModule \<Rightarrow> string \<Rightarrow> LLType
     \<Rightarrow> (error + LLFunction) \<times> LLModule" where
  "getOrInsertFunction uniq m n fty =
     (let new = \<lparr>fn_name = n, fn_type = fty, fn_linkage = ExternalLinkage,
                  fn_attrs = NoAttrs\<rparr>
      in case getNamedValue m n of
           None \<Rightarrow> (Inr new, m\<lparr>mod_functions := mod_functions m @ [new]\<rparr>)
         | Some F \<Rightarrow>
             (if hasLocalLinkage F
              then (let m1 = setName F n (uniq m n) m
                    in (Inr new, m1\<lparr>mod_functions := mod_functions m1 @ [new]\<rparr>))
              else (case F of
                      FunctionValue f \<Rightarrow>
                        (if fn_type f = fty then (Inr f, m)
                         else (Inl (AssertionFailed ''cast<llvm::Function>''), m))
                    | VariableValue g \<Rightarrow>
                        (Inl (AssertionFailed ''cast<llvm::Function>''), m))))"

definition setAttributes :: "string \<Rightarrow> AttrListPtr \<Rightarrow> LLModule \<Rightarrow> LLModule" where
  "setAttributes n A m =
     m\<lparr>mod_functions := map (\<lambda>f. if fn_name f = n then f\<lparr>fn_attrs := A\<rparr> else f) (mod_functions m)\<rparr>"

text \<open>
  \<open>new llvm::GlobalVariable(*target, ty, isConstant, linkage, NULL, name)\<close>: a fresh
  declaration without initializer, appended to the target's globals. When the symbol
  table holds the name already, the new global gets the name LLVM chooses instead.
\<close>

definition new_GlobalVariable ::
  "(LLModule \<Rightarrow> string \<Rightarrow> string) \<Rightarrow> LLModule \<Rightarrow> LLType \<Rightarrow> bool \<Rightarrow> Linkage \<Rightarrow> string
     \<Rightarrow> GlobalVariable \<times> LLModule" where
  "new_GlobalVariable uniq target ty c l n =
     (let n1 = (case getNamedValue target n of None \<Rightarrow> n | Some v \<Rightarrow> uniq target n);
          g = \<lparr>gv_name = n1, gv_valueType = ty, gv_isConstant = c, gv_linkage = l,
                gv_hasInitializer = False\<rparr>
      in (g, target\<lparr>mod_globals := mod_globals target @ [g]\<rparr>))"

section \<open>The front end's types\<close>

datatype TY =
    Tarray | Tsarray | Taarray | Tpointer | Tfunction | Tclass | Tstruct
  | Tenum | Ttypedef | Tdelegate | Ttuple | Tbasic nat

text \<open>
  A type node with the fields this layer reads: \<open>next\<close> (element, pointee, return
  or function type), the dimension of a static array, the key type of an associative
  array, the symbol of an aggregate with \<open>isInterfaceDeclaration()\<close> for a class,
  and the member or base type of an enum or typedef.
\<close>

datatype Type =
    TypeBasic nat
  | TypePointer Type
  | TypeDArray Type
  | TypeSArray Type nat
  | TypeAArray Type Type
  | TypeStruct string
  | TypeClass string bool
  | TypeEnum string Type
  | TypeTypedef string Type
  | TypeFunction "Type list" Type
  | TypeDelegate Type
  | TypeTuple "Type list"

fun ty :: "Type \<Rightarrow> TY" where
  "ty (TypeBasic k) = Tbasic k"
| "ty (TypePointer n) = Tpointer"
| "ty (TypeDArray n) = Tarray"
| "ty (TypeSArray n d) = Tsarray"
| "ty (TypeAArray n i) = Taarray"
| "ty (TypeStruct s) = Tstruct"
| "ty (TypeClass s i) = Tclass"
| "ty (TypeEnum s m) = Tenum"
| "ty (TypeTypedef s b) = Ttypedef"
| "ty (TypeFunction ps r) = Tfunction"
| "ty (TypeDelegate f) = Tdelegate"
| "ty (TypeTuple ts) = Ttuple"

text \<open>
  Modelled from the spec: \<open>Type::toBasetype\<close> is defined in mtype.c, which is not
  among the sources. "Reduce t to its underlying/base representation": a typedef
  reduces to the base of its base type, an enum to the base of its member type, every
  other type to itself.
\<close>

fun toBasetype :: "Type \<Rightarrow> Type" where
  "toBasetype (TypeTypedef s b) = toBasetype b"
| "toBasetype (TypeEnum s m) = toBasetype m"
| "toBasetype t = t"

text \<open>
  Modelled from the spec: \<open>Type::arrayOf\<close> is defined in mtype.c, which is not among
  the sources. "static array \<rightarrow> dynamic array of same element".
\<close>

definition arrayOf :: "Type \<Rightarrow> Type" where
  "arrayOf t = TypeDArray t"

fun isTypeBasic :: "Type \<Rightarrow> bool" where
  "isTypeBasic (TypeBasic k) = True"
| "isTypeBasic t = False"

fun builtinTypeInfo :: "Type \<Rightarrow> bool" where
  "builtinTypeInfo (TypeBasic k) = True"
| "builtinTypeInfo (TypeDArray n) = isTypeBasic n"
| "builtinTypeInfo t = False"

section \<open>Descriptors\<close>

datatype TypeInfoKind =
    TypeInfoPlainDeclaration
  | TypeInfoTypedefDeclaration
  | TypeInfoEnumDeclaration
  | TypeInfoPointerDeclaration
  | TypeInfoArrayDeclaration
  | TypeInfoStaticArrayDeclaration
  | TypeInfoAssociativeArrayDeclaration
  | TypeInfoFunctionDeclaration
  | TypeInfoDelegateDeclaration
  | TypeInfoStructDeclaration
  | TypeInfoClassDeclaration
  | TypeInfoInterfaceDeclaration
  | TypeInfoTupleDeclaration

record TypeInfoDeclaration =
  td_kind :: TypeInfoKind
  tinfo :: Type
  td_internal :: int
  td_type :: Type
  llvmTouched :: bool
  llvmValue :: "GlobalVariable option"

type_synonym addr = nat

record Expression =
  var :: addr
  exp_type :: Type

record Scope =
  importedFrom :: nat

section \<open>Configuration and session state\<close>

datatype ARCH = ARCHx86 | ARCHx86_64 | ARCHother

text \<open>
  What the layer takes from its collaborators: the \<open>-noruntime\<close> switch, the target
  CPU, the structural types the code generator gives for \<open>size_t\<close>, \<open>Object\<close>,
  \<open>ClassInfo\<close>, \<open>TypeInfo\<close> and the mutex, the reflection type
  \<open>Type::typeinfo->type\<close>, the front end's \<open>merge\<close>, a declaration's
  \<open>mangle\<close>, and the name LLVM's symbol table gives a value whose name is taken.
\<close>

record config =
  noruntime :: bool
  cpu :: ARCH
  DtoSize_t :: LLType
  objectTy :: LLType
  classInfoTy :: LLType
  typeInfoTy :: LLType
  DtoMutexType :: LLType
  typeinfo_type :: Type
  merge :: "Type \<Rightarrow> Type"
  mangle :: "TypeInfoDeclaration \<Rightarrow> string"
  uniqueName :: "LLModule \<Rightarrow> string \<Rightarrow> string"

text \<open>
  The mutable state of a session: the static \<open>M\<close> of runtime.cpp, the module
  \<open>gIR->module\<close> being generated, the \<open>vtinfo\<close> slot of every merged type, the
  static table \<open>internalTI\<close>, the descriptor objects allocated so far (a store with
  its allocation pointer), and the member list of every front-end module.
\<close>

record state =
  runtime_M :: "LLModule option"
  gIR_module :: LLModule
  vtinfo :: "Type \<Rightarrow> addr option"
  internalTI :: "TY \<Rightarrow> addr option"
  heap :: "addr \<Rightarrow> TypeInfoDeclaration"
  next_free :: addr
  members :: "nat \<Rightarrow> addr list"

text \<open>\<open>static bool runtime_failed = false;\<close> is never assigned.\<close>

definition runtime_failed :: bool where
  "runtime_failed = False"

section \<open>The Runtime Module\<close>

text \<open>
  Modelled from the spec: \<open>getPtrToType\<close> is defined in gen/tollvm.cpp, which is not
  among the sources. It is the code generator's pointer-to-type, with a pointer to
  \<open>void\<close> given as a pointer to a byte.
\<close>

definition getPtrToType :: "LLType \<Rightarrow> LLType" where
  "getPtrToType t = PointerTy (if t = VoidTy then IntegerTy 8 else t)"

definition rt_ptr :: "LLType \<Rightarrow> LLType" where
  "rt_ptr t = getPtrToType t"

definition rt_array :: "config \<Rightarrow> LLType \<Rightarrow> LLType" where
  "rt_array cfg elemty = StructTy [DtoSize_t cfg, rt_ptr elemty]"

definition rt_dg1 :: LLType where
  "rt_dg1 =
     (let types = [rt_ptr (IntegerTy 8), rt_ptr (IntegerTy 8)];
          fty = FunctionType_get (IntegerTy 32) types False
      in StructTy [rt_ptr (IntegerTy 8), rt_ptr fty])"

definition rt_dg2 :: LLType where
  "rt_dg2 =
     (let types = [rt_ptr (IntegerTy 8), rt_ptr (IntegerTy 8), rt_ptr (IntegerTy 8)];
          fty = FunctionType_get (IntegerTy 32) types False
      in StructTy [rt_ptr (IntegerTy 8), rt_ptr fty])"

subsection \<open>Basic, float and aggregate types\<close>

definition voidTy :: LLType where "voidTy = VoidTy"
definition boolTy :: LLType where "boolTy = IntegerTy 1"
definition byteTy :: LLType where "byteTy = IntegerTy 8"
definition shortTy :: LLType where "shortTy = IntegerTy 16"
definition intTy :: LLType where "intTy = IntegerTy 32"
definition longTy :: LLType where "longTy = IntegerTy 64"
definition sizeTy :: "config \<Rightarrow> LLType" where "sizeTy cfg = DtoSize_t cfg"

definition floatTy :: LLType where "floatTy = FloatTy"
definition doubleTy :: LLType where "doubleTy = DoubleTy"

definition realTy :: "config \<Rightarrow> LLType" where
  "realTy cfg = (if cpu cfg = ARCHx86 \<or> cpu cfg = ARCHx86_64 then X86_FP80Ty else DoubleTy)"

definition cfloatTy :: LLType where "cfloatTy = StructTy [floatTy, floatTy]"
definition cdoubleTy :: LLType where "cdoubleTy = StructTy [doubleTy, doubleTy]"
definition crealTy :: "config \<Rightarrow> LLType" where "crealTy cfg = StructTy [realTy cfg, realTy cfg]"

definition voidPtrTy :: LLType where "voidPtrTy = rt_ptr byteTy"
definition stringTy :: "config \<Rightarrow> LLType" where "stringTy cfg = rt_array cfg byteTy"
definition wstringTy :: "config \<Rightarrow> LLType" where "wstringTy cfg = rt_array cfg shortTy"
definition dstringTy :: "config \<Rightarrow> LLType" where "dstringTy cfg = rt_array cfg intTy"

definition aaTy :: LLType where "aaTy = rt_ptr OpaqueTy"

subsection \<open>The attribute lists\<close>

definition Attr_NoAlias :: AttrListPtr where
  "Attr_NoAlias = addAttr NoAttrs 0 NoAlias"
definition Attr_NoUnwind :: AttrListPtr where
  "Attr_NoUnwind = addAttr NoAttrs FunctionIndex NoUnwind"
definition Attr_ReadOnly :: AttrListPtr where
  "Attr_ReadOnly = addAttr NoAttrs FunctionIndex ReadOnly"
definition Attr_ReadOnly_NoUnwind :: AttrListPtr where
  "Attr_ReadOnly_NoUnwind = addAttr Attr_ReadOnly FunctionIndex NoUnwind"
definition Attr_ReadOnly_1_NoCapture :: AttrListPtr where
  "Attr_ReadOnly_1_NoCapture = addAttr Attr_ReadOnly 1 NoCapture"
definition Attr_ReadOnly_1_3_NoCapture :: AttrListPtr where
  "Attr_ReadOnly_1_3_NoCapture = addAttr Attr_ReadOnly_1_NoCapture 3 NoCapture"
definition Attr_ReadOnly_1_4_NoCapture :: AttrListPtr where
  "Attr_ReadOnly_1_4_NoCapture = addAttr Attr_ReadOnly_1_NoCapture 4 NoCapture"
definition Attr_ReadOnly_NoUnwind_1_NoCapture :: AttrListPtr where
  "Attr_ReadOnly_NoUnwind_1_NoCapture = addAttr Attr_ReadOnly_1_NoCapture FunctionIndex NoUnwind"
definition Attr_ReadNone :: AttrListPtr where
  "Attr_ReadNone = addAttr NoAttrs FunctionIndex ReadNone"
definition Attr_1_NoCapture :: AttrListPtr where
  "Attr_1_NoCapture = addAttr NoAttrs 1 NoCapture"
definition Attr_NoAlias_1_NoCapture :: AttrListPtr where
  "Attr_NoAlias_1_NoCapture = addAttr Attr_1_NoCapture 0 NoAlias"
definition Attr_NoAlias_3_NoCapture :: AttrListPtr where
  "Attr_NoAlias_3_NoCapture = addAttr Attr_NoAlias 3 NoCapture"
definition Attr_1_2_NoCapture :: AttrListPtr where
  "Attr_1_2_NoCapture = addAttr Attr_1_NoCapture 2 NoCapture"
definition Attr_1_3_NoCapture :: AttrListPtr where
  "Attr_1_3_NoCapture = addAttr Attr_1_NoCapture 3 NoCapture"
definition Attr_1_4_NoCapture :: AttrListPtr where
  "Attr_1_4_NoCapture = addAttr Attr_1_NoCapture 4 NoCapture"

subsection \<open>The catalogue, in the order \<open>LLVM_D_BuildRuntimeModule\<close> creates it\<close>

text \<open>
  Every block of \<open>LLVM_D_BuildRuntimeModule\<close> builds one function type and creates
  one to three functions of that type with external linkage. A block is given here as
  the list of its creations: name, function type, attribute list (\<open>NoAttrs\<close> where the
  source calls no \<open>setAttributes\<close>).
\<close>

type_synonym creation = "string \<times> LLType \<times> AttrListPtr"

definition diagnostics_block :: "config \<Rightarrow> creation list" where
  "diagnostics_block cfg =
     (let fty = FunctionType_get voidTy [stringTy cfg, intTy] False
      in [(''_d_assert'', fty, NoAttrs),
          (''_d_array_bounds'', fty, NoAttrs),
          (''_d_switch_error'', fty, NoAttrs)])
     @
     (let fty = FunctionType_get voidPtrTy [stringTy cfg, stringTy cfg, intTy] False
      in [(''_d_assert_msg'', fty, NoAttrs)])"

definition allocation_block :: "config \<Rightarrow> creation list" where
  "allocation_block cfg =
     (let fty = FunctionType_get voidPtrTy [typeInfoTy cfg] False
      in [(''_d_allocmemoryT'', fty, Attr_NoAlias)])
     @
     (let fty = FunctionType_get voidPtrTy [typeInfoTy cfg, sizeTy cfg] False
      in [(''_d_newarrayT'', fty, Attr_NoAlias),
          (''_d_newarrayiT'', fty, Attr_NoAlias),
          (''_d_newarrayvT'', fty, Attr_NoAlias)])
     @
     (let fty = FunctionType_get voidPtrTy [typeInfoTy cfg, sizeTy cfg, rt_ptr (sizeTy cfg)] False
      in [(''_d_newarraymT'', fty, Attr_NoAlias_3_NoCapture),
          (''_d_newarraymiT'', fty, Attr_NoAlias_3_NoCapture),
          (''_d_newarraymvT'', fty, Attr_NoAlias_3_NoCapture)])
     @
     (let fty = FunctionType_get voidPtrTy
                  [typeInfoTy cfg, sizeTy cfg, sizeTy cfg, voidPtrTy] False
      in [(''_d_arraysetlengthT'', fty, NoAttrs),
          (''_d_arraysetlengthiT'', fty, NoAttrs)])
     @
     (let fty = FunctionType_get voidPtrTy [classInfoTy cfg] False
      in [(''_d_allocclass'', fty, Attr_NoAlias)])
     @
     (let fty = FunctionType_get voidTy [sizeTy cfg, voidPtrTy] False
      in [(''_d_delarray'', fty, NoAttrs)])
     @
     (let fty = FunctionType_get voidTy [voidPtrTy] False
      in [(''_d_delmemory'', fty, NoAttrs),
          (''_d_delinterface'', fty, NoAttrs),
          (''_d_callfinalizer'', fty, NoAttrs)])
     @
     (let fty = FunctionType_get voidTy [objectTy cfg] False
      in [(''_d_delclass'', fty, NoAttrs)])"

definition ARRAY_INIT :: "config \<Rightarrow> LLType \<Rightarrow> string \<Rightarrow> creation list" where
  "ARRAY_INIT cfg TY suffix =
     (let fname = ''_d_array_init_'' @ suffix;
          fty = FunctionType_get voidTy [rt_ptr TY, sizeTy cfg, TY] False
      in [(fname, fty, Attr_1_NoCapture)])"

definition array_init_block :: "config \<Rightarrow> creation list" where
  "array_init_block cfg =
     ARRAY_INIT cfg shortTy ''i16''
     @ ARRAY_INIT cfg intTy ''i32''
     @ ARRAY_INIT cfg longTy ''i64''
     @ ARRAY_INIT cfg floatTy ''float''
     @ ARRAY_INIT cfg doubleTy ''double''
     @ ARRAY_INIT cfg (realTy cfg) ''real''
     @ ARRAY_INIT cfg cfloatTy ''cfloat''
     @ ARRAY_INIT cfg cdoubleTy ''cdouble''
     @ ARRAY_INIT cfg (crealTy cfg) ''creal''
     @ ARRAY_INIT cfg voidPtrTy ''pointer''
     @
     (let fty = FunctionType_get voidTy [voidPtrTy, sizeTy cfg, voidPtrTy, sizeTy cfg] False
      in [(''_d_array_init_mem'', fty, Attr_1_3_NoCapture),
          (''_d_array_slice_copy'', fty, Attr_1_3_NoCapture)])"

definition STR_APPLY1 :: "LLType \<Rightarrow> string \<Rightarrow> string \<Rightarrow> creation list" where
  "STR_APPLY1 TY a b =
     (let fty = FunctionType_get intTy [TY, rt_dg1] False
      in [(a, fty, NoAttrs), (b, fty, NoAttrs)])"

definition STR_APPLY2 :: "LLType \<Rightarrow> string \<Rightarrow> string \<Rightarrow> creation list" where
  "STR_APPLY2 TY a b =
     (let fty = FunctionType_get intTy [TY, rt_dg2] False
      in [(a, fty, NoAttrs), (b, fty, NoAttrs)])"

definition STR_APPLY_R1 :: "LLType \<Rightarrow> string \<Rightarrow> string \<Rightarrow> creation list" where
  "STR_APPLY_R1 TY a b =
     (let fty = FunctionType_get intTy [TY, rt_dg1] False
      in [(a, fty, NoAttrs), (b, fty, NoAttrs)])"

definition STR_APPLY_R2 :: "LLType \<Rightarrow> string \<Rightarrow> string \<Rightarrow> creation list" where
  "STR_APPLY_R2 TY a b =
     (let fty = FunctionType_get intTy [TY, rt_dg2] False
      in [(a, fty, NoAttrs), (b, fty, NoAttrs)])"

definition str_apply_block :: "config \<Rightarrow> creation list" where
  "str_apply_block cfg =
     STR_APPLY1 (stringTy cfg) ''_aApplycw1'' ''_aApplycd1''
     @ STR_APPLY1 (wstringTy cfg) ''_aApplywc1'' ''_aApplywd1''
     @ STR_APPLY1 (dstringTy cfg) ''_aApplydc1'' ''_aApplydw1''
     @ STR_APPLY2 (stringTy cfg) ''_aApplycw2'' ''_aApplycd2''
     @ STR_APPLY2 (wstringTy cfg) ''_aApplywc2'' ''_aApplywd2''
     @ STR_APPLY2 (dstringTy cfg) ''_aApplydc2'' ''_aApplydw2''
     @ STR_APPLY_R1 (stringTy cfg) ''_aApplyRcw1'' ''_aApplyRcd1''
     @ STR_APPLY_R1 (wstringTy cfg) ''_aApplyRwc1'' ''_aApplyRwd1''
     @ STR_APPLY_R1 (dstringTy cfg) ''_aApplyRdc1'' ''_aApplyRdw1''
     @ STR_APPLY_R2 (stringTy cfg) ''_aApplyRcw2'' ''_aApplyRcd2''
     @ STR_APPLY_R2 (wstringTy cfg) ''_aApplyRwc2'' ''_aApplyRwd2''
     @ STR_APPLY_R2 (dstringTy cfg) ''_aApplyRdc2'' ''_aApplyRdw2''"

definition cast_block :: "config \<Rightarrow> creation list" where
  "cast_block cfg =
     (let fty = FunctionType_get (sizeTy cfg) [sizeTy cfg, sizeTy cfg, sizeTy cfg] False
      in [(''_d_array_cast_len'', fty, Attr_ReadNone)])
     @
     (let fty = FunctionType_get (objectTy cfg) [voidPtrTy] False
      in [(''_d_toObject'', fty, Attr_ReadOnly_NoUnwind)])
     @
     (let fty = FunctionType_get (objectTy cfg) [voidPtrTy, classInfoTy cfg] False
      in [(''_d_interface_cast'', fty, Attr_ReadOnly_NoUnwind)])
     @
     (let fty = FunctionType_get (objectTy cfg) [objectTy cfg, classInfoTy cfg] False
      in [(''_d_dynamic_cast'', fty, Attr_ReadOnly_NoUnwind)])"

definition array_algorithms_block :: "config \<Rightarrow> creation list" where
  "array_algorithms_block cfg =
     (let fty = FunctionType_get (stringTy cfg) [stringTy cfg] False
      in [(''_adReverseChar'', fty, NoAttrs),
          (''_adSortChar'', fty, NoAttrs)])
     @
     (let fty = FunctionType_get (wstringTy cfg) [wstringTy cfg] False
      in [(''_adReverseWchar'', fty, NoAttrs),
          (''_adSortWchar'', fty, NoAttrs)])
     @
     (let fty = FunctionType_get (rt_array cfg byteTy) [rt_array cfg byteTy, sizeTy cfg] False
      in [(''_adReverse'', fty, Attr_NoUnwind)])
     @
     (let fty = FunctionType_get (rt_array cfg byteTy) [typeInfoTy cfg, rt_array cfg byteTy] False
      in [(''_adDupT'', fty, NoAttrs)])
     @
     (let fty = FunctionType_get intTy
                  [rt_array cfg byteTy, rt_array cfg byteTy, typeInfoTy cfg] False
      in [(''_adEq'', fty, Attr_ReadOnly),
          (''_adCmp'', fty, Attr_ReadOnly)])
     @
     (let fty = FunctionType_get intTy [rt_array cfg byteTy, rt_array cfg byteTy] False
      in [(''_adCmpChar'', fty, Attr_ReadOnly_NoUnwind)])
     @
     (let fty = FunctionType_get (rt_array cfg byteTy) [rt_array cfg byteTy, typeInfoTy cfg] False
      in [(''_adSort'', fty, NoAttrs)])"

definition associative_array_block :: "config \<Rightarrow> creation list" where
  "associative_array_block cfg =
     (let fty = FunctionType_get (sizeTy cfg) [aaTy] False
      in [(''_aaLen'', fty, Attr_ReadOnly_NoUnwind_1_NoCapture)])
     @
     (let fty = FunctionType_get voidPtrTy [aaTy, typeInfoTy cfg, sizeTy cfg, voidPtrTy] False
      in [(''_aaGet'', fty, Attr_1_4_NoCapture)])
     @
     (let fty = FunctionType_get voidPtrTy [aaTy, typeInfoTy cfg, voidPtrTy] False
      in [(''_aaIn'', fty, Attr_ReadOnly_1_3_NoCapture)])
     @
     (let fty = FunctionType_get voidTy [aaTy, typeInfoTy cfg, voidPtrTy] False
      in [(''_aaDel'', fty, Attr_1_3_NoCapture)])
     @
     (let fty = FunctionType_get (rt_array cfg byteTy) [aaTy, sizeTy cfg, sizeTy cfg] False
      in [(''_aaValues'', fty, Attr_NoAlias_1_NoCapture)])
     @
     (let fty = FunctionType_get voidPtrTy [aaTy, typeInfoTy cfg] False
      in [(''_aaRehash'', fty, NoAttrs)])
     @
     (let fty = FunctionType_get (rt_array cfg byteTy) [aaTy, sizeTy cfg] False
      in [(''_aaKeys'', fty, Attr_NoAlias_1_NoCapture)])
     @
     (let fty = FunctionType_get intTy [aaTy, sizeTy cfg, rt_dg1] False
      in [(''_aaApply'', fty, Attr_1_NoCapture)])
     @
     (let fty = FunctionType_get intTy [aaTy, sizeTy cfg, rt_dg2] False
      in [(''_aaApply2'', fty, Attr_1_NoCapture)])
     @
     (let fty = FunctionType_get intTy [aaTy, aaTy, typeInfoTy cfg] False
      in [(''_aaEq'', fty, Attr_1_2_NoCapture)])"

definition module_and_exception_block :: "config \<Rightarrow> creation list" where
  "module_and_exception_block cfg =
     (let fty = FunctionType_get voidTy [] False
      in [(''_moduleCtor'', fty, NoAttrs),
          (''_moduleDtor'', fty, NoAttrs)])
     @
     (let fty = FunctionType_get voidTy [objectTy cfg] False
      in [(''_d_throw_exception'', fty, NoAttrs)])"

definition switch_block :: "config \<Rightarrow> creation list" where
  "switch_block cfg =
     (let fty = FunctionType_get intTy [rt_array cfg (stringTy cfg), stringTy cfg] False
      in [(''_d_switch_string'', fty, Attr_ReadOnly)])
     @
     (let fty = FunctionType_get intTy [rt_array cfg (wstringTy cfg), wstringTy cfg] False
      in [(''_d_switch_ustring'', fty, Attr_ReadOnly)])
     @
     (let fty = FunctionType_get intTy [rt_array cfg (dstringTy cfg), dstringTy cfg] False
      in [(''_d_switch_dstring'', fty, Attr_ReadOnly)])"

definition synchronization_block :: "config \<Rightarrow> creation list" where
  "synchronization_block cfg =
     (let fty = FunctionType_get voidTy [rt_ptr (DtoMutexType cfg)] False
      in [(''_d_criticalenter'', fty, NoAttrs),
          (''_d_criticalexit'', fty, NoAttrs)])
     @
     (let fty = FunctionType_get voidTy [objectTy cfg] False
      in [(''_d_monitorenter'', fty, Attr_1_NoCapture),
          (''_d_monitorexit'', fty, Attr_1_NoCapture)])"

definition eh_and_invariant_block :: "config \<Rightarrow> creation list" where
  "eh_and_invariant_block cfg =
     (let fty = FunctionType_get intTy [intTy, intTy, longTy, voidPtrTy, voidPtrTy] False
      in [(''_d_eh_personality'', fty, NoAttrs)])
     @
     (let fty = FunctionType_get voidTy [voidPtrTy] False
      in [(''_d_eh_resume_unwind'', fty, NoAttrs)])
     @
     (let fty = FunctionType_get voidTy [objectTy cfg] False
      in [(''_d_invariant'', fty, NoAttrs)])"

definition catalogue :: "config \<Rightarrow> creation list" where
  "catalogue cfg =
     diagnostics_block cfg @ allocation_block cfg @ array_init_block cfg
     @ str_apply_block cfg @ cast_block cfg @ array_algorithms_block cfg
     @ associative_array_block cfg @ module_and_exception_block cfg
     @ switch_block cfg @ synchronization_block cfg @ eh_and_invariant_block cfg"

definition create :: "LLModule \<Rightarrow> creation \<Rightarrow> LLModule" where
  "create m c = (case c of (n, fty, A) \<Rightarrow> Function_Create fty ExternalLinkage n A m)"

definition LLVM_D_BuildRuntimeModule :: "config \<Rightarrow> LLModule" where
  "LLVM_D_BuildRuntimeModule cfg = foldl create (new_Module ''ldc internal runtime'') (catalogue cfg)"

section \<open>The Runtime ABI Registry\<close>

definition LLVM_D_InitRuntime :: "config \<Rightarrow> state \<Rightarrow> bool \<times> state" where
  "LLVM_D_InitRuntime cfg s =
     (if runtime_M s = None
      then (True, s\<lparr>runtime_M := Some (LLVM_D_BuildRuntimeModule cfg)\<rparr>)
      else (True, s))"

definition LLVM_D_FreeRuntime :: "state \<Rightarrow> state" where
  "LLVM_D_FreeRuntime s =
     (if runtime_M s \<noteq> None then s\<lparr>runtime_M := None\<rparr> else s)"

text \<open>
  The common step \<open>if (!M) { assert(!runtime_failed); LLVM_D_InitRuntime(); }\<close>.
\<close>

definition ensure_M :: "config \<Rightarrow> state \<Rightarrow> error + state" where
  "ensure_M cfg s =
     (if runtime_M s = None
      then (if runtime_failed then Inl (AssertionFailed ''!runtime_failed'')
            else Inr (snd (LLVM_D_InitRuntime cfg s)))
      else Inr s)"

definition LLVM_D_GetRuntimeFunction ::
  "config \<Rightarrow> LLModule \<Rightarrow> string \<Rightarrow> state \<Rightarrow> (error + LLFunction) \<times> LLModule \<times> state" where
  "LLVM_D_GetRuntimeFunction cfg target name s =
     (if noruntime cfg then (Inl PolicyViolation, target, s)
      else
        (case ensure_M cfg s of
           Inl e \<Rightarrow> (Inl e, target, s)
         | Inr s1 \<Rightarrow>
             (case getFunction target name of
                Some fn \<Rightarrow> (Inr fn, target, s1)
              | None \<Rightarrow>
                  (case runtime_M s1 of
                     None \<Rightarrow> (Inl NullDereference, target, s1)
                   | Some M \<Rightarrow>
                       (case getFunction M name of
                          None \<Rightarrow> (Inl (AssertionFailed ''0''), target, s1)
                        | Some fn \<Rightarrow>
                            (let fnty = fn_type fn
                             in case getOrInsertFunction (uniqueName cfg) target name fnty of
                                  (Inl e, target1) \<Rightarrow> (Inl e, target1, s1)
                                | (Inr resfn, target1) \<Rightarrow>
                                    (Inr (resfn\<lparr>fn_attrs := fn_attrs fn\<rparr>),
                                     setAttributes name (fn_attrs fn) target1, s1)))))))"

definition LLVM_D_GetRuntimeGlobal ::
  "config \<Rightarrow> LLModule \<Rightarrow> string \<Rightarrow> state \<Rightarrow> (error + GlobalVariable) \<times> LLModule \<times> state" where
  "LLVM_D_GetRuntimeGlobal cfg target name s =
     (case getNamedGlobal target name of
        Some gv \<Rightarrow> (Inr gv, target, s)
      | None \<Rightarrow>
          (if noruntime cfg then (Inl PolicyViolation, target, s)
           else
             (case ensure_M cfg s of
                Inl e \<Rightarrow> (Inl e, target, s)
              | Inr s1 \<Rightarrow>
                  (case runtime_M s1 of
                     None \<Rightarrow> (Inl NullDereference, target, s1)
                   | Some M \<Rightarrow>
                       (case getNamedGlobal M name of
                          None \<Rightarrow>
                            (Inl (Fatal (''Runtime global '' @ [CHR 0x27] @ name @ [CHR 0x27]
                                         @ '' was not found'')), target, s1)
                        | Some g \<Rightarrow>
                            (case new_GlobalVariable (uniqueName cfg) target (gv_valueType g)
                                    (gv_isConstant g)
                                    (gv_linkage g) (gv_name g) of
                               (gv, target1) \<Rightarrow> (Inr gv, target1, s1)))))))"

section \<open>The Type Descriptor Canonicalizer\<close>

text \<open>
  Modelled from the spec: the constructors of \<open>TypeInfoDeclaration\<close> and of its
  twelve subclasses are defined in declaration.c, which is not among the sources. A
  new Descriptor records the type it describes, has the reflection type
  \<open>Type::typeinfo->type\<close>, and starts un-emitted: the one-shot latch is clear and no
  backing storage is resolved.
\<close>

definition new_TypeInfoDeclaration ::
  "config \<Rightarrow> TypeInfoKind \<Rightarrow> Type \<Rightarrow> int \<Rightarrow> TypeInfoDeclaration" where
  "new_TypeInfoDeclaration cfg k t internal =
     \<lparr>td_kind = k, tinfo = t, td_internal = internal, td_type = typeinfo_type cfg,
      llvmTouched = False, llvmValue = None\<rparr>"

text \<open>\<open>new\<close>: the object is stored at the allocation pointer, which then advances.\<close>

definition new_object :: "TypeInfoDeclaration \<Rightarrow> state \<Rightarrow> addr \<times> state" where
  "new_object obj s =
     (next_free s, s\<lparr>heap := (heap s)(next_free s := obj), next_free := Suc (next_free s)\<rparr>)"

text \<open>The virtual \<open>getTypeInfoDeclaration\<close>, one equation per overriding class.\<close>

fun getTypeInfoDeclaration :: "config \<Rightarrow> Type \<Rightarrow> TypeInfoDeclaration" where
  "getTypeInfoDeclaration cfg (TypeTypedef s b) =
     new_TypeInfoDeclaration cfg TypeInfoTypedefDeclaration (TypeTypedef s b) 0"
| "getTypeInfoDeclaration cfg (TypePointer n) =
     new_TypeInfoDeclaration cfg TypeInfoPointerDeclaration (TypePointer n) 0"
| "getTypeInfoDeclaration cfg (TypeDArray n) =
     new_TypeInfoDeclaration cfg TypeInfoArrayDeclaration (TypeDArray n) 0"
| "getTypeInfoDeclaration cfg (TypeSArray n d) =
     new_TypeInfoDeclaration cfg TypeInfoStaticArrayDeclaration (TypeSArray n d) 0"
| "getTypeInfoDeclaration cfg (TypeAArray n i) =
     new_TypeInfoDeclaration cfg TypeInfoAssociativeArrayDeclaration (TypeAArray n i) 0"
| "getTypeInfoDeclaration cfg (TypeStruct sd) =
     new_TypeInfoDeclaration cfg TypeInfoStructDeclaration (TypeStruct sd) 0"
| "getTypeInfoDeclaration cfg (TypeClass cd isInterfaceDeclaration) =
     (if isInterfaceDeclaration
      then new_TypeInfoDeclaration cfg TypeInfoInterfaceDeclaration
             (TypeClass cd isInterfaceDeclaration) 0
      else new_TypeInfoDeclaration cfg TypeInfoClassDeclaration
             (TypeClass cd isInterfaceDeclaration) 0)"
| "getTypeInfoDeclaration cfg (TypeEnum s m) =
     new_TypeInfoDeclaration cfg TypeInfoEnumDeclaration (TypeEnum s m) 0"
| "getTypeInfoDeclaration cfg (TypeFunction ps r) =
     new_TypeInfoDeclaration cfg TypeInfoFunctionDeclaration (TypeFunction ps r) 0"
| "getTypeInfoDeclaration cfg (TypeDelegate f) =
     new_TypeInfoDeclaration cfg TypeInfoDelegateDeclaration (TypeDelegate f) 0"
| "getTypeInfoDeclaration cfg (TypeTuple ts) =
     new_TypeInfoDeclaration cfg TypeInfoTupleDeclaration (TypeTuple ts) 0"
| "getTypeInfoDeclaration cfg (TypeBasic k) =
     new_TypeInfoDeclaration cfg TypeInfoPlainDeclaration (TypeBasic k) 0"

subsection \<open>Emission\<close>

text \<open>
  \<open>TypeInfoDeclaration::toObjFile\<close> on the descriptor stored at \<open>a\<close>. The target
  of the lookup is \<open>gIR->module\<close>. \<open>LLVM_D_GetRuntimeGlobal\<close> never returns null,
  so \<open>assert(llvmValue)\<close> holds whenever it is reached.
\<close>

definition toObjFile :: "config \<Rightarrow> addr \<Rightarrow> state \<Rightarrow> (error + unit) \<times> state" where
  "toObjFile cfg a s =
     (if llvmTouched (heap s a) then (Inr (), s)
      else
        (let s1 = s\<lparr>heap := (heap s)(a := (heap s a)\<lparr>llvmTouched := True\<rparr>)\<rparr>
         in case LLVM_D_GetRuntimeGlobal cfg (gIR_module s1) (mangle cfg (heap s1 a)) s1 of
              (Inl e, target1, s2) \<Rightarrow> (Inl e, s2\<lparr>gIR_module := target1\<rparr>)
            | (Inr gv, target1, s2) \<Rightarrow>
                (Inr (),
                 s2\<lparr>gIR_module := target1,
                    heap := (heap s2)(a := (heap s2 a)\<lparr>llvmValue := Some gv\<rparr>)\<rparr>)))"

subsection \<open>The dead layout path\<close>

definition createTypeInfoArray ::
  "Scope option \<Rightarrow> Expression list \<Rightarrow> int \<Rightarrow> error + Expression" where
  "createTypeInfoArray sc args dim = Inl (AssertionFailed ''0'')"

text \<open>The virtual \<open>toDt\<close>, one equation per class; \<open>pdt\<close> is the data being built.\<close>

fun toDt :: "TypeInfoKind \<Rightarrow> 'dt \<Rightarrow> error + 'dt" where
  "toDt TypeInfoPlainDeclaration pdt = Inl (AssertionFailed ''TypeInfoDeclaration'')"
| "toDt TypeInfoTypedefDeclaration pdt = Inl (AssertionFailed ''TypeInfoTypedefDeclaration'')"
| "toDt TypeInfoEnumDeclaration pdt = Inl (AssertionFailed ''TypeInfoEnumDeclaration'')"
| "toDt TypeInfoPointerDeclaration pdt = Inl (AssertionFailed ''TypeInfoPointerDeclaration'')"
| "toDt TypeInfoArrayDeclaration pdt = Inl (AssertionFailed ''TypeInfoArrayDeclaration'')"
| "toDt TypeInfoStaticArrayDeclaration pdt =
     Inl (AssertionFailed ''TypeInfoStaticArrayDeclaration'')"
| "toDt TypeInfoAssociativeArrayDeclaration pdt =
     Inl (AssertionFailed ''TypeInfoAssociativeArrayDeclaration'')"
| "toDt TypeInfoFunctionDeclaration pdt = Inl (AssertionFailed ''TypeInfoFunctionDeclaration'')"
| "toDt TypeInfoDelegateDeclaration pdt = Inl (AssertionFailed ''TypeInfoDelegateDeclaration'')"
| "toDt TypeInfoStructDeclaration pdt = Inl (AssertionFailed ''TypeInfoStructDeclaration'')"
| "toDt TypeInfoClassDeclaration pdt = Inl (AssertionFailed ''TypeInfoClassDeclaration'')"
| "toDt TypeInfoInterfaceDeclaration pdt =
     Inl (AssertionFailed ''TypeInfoInterfaceDeclaration'')"
| "toDt TypeInfoTupleDeclaration pdt = Inl (AssertionFailed ''TypeInfoTupleDeclaration'')"

subsection \<open>The exact descriptor\<close>

text \<open>\<open>e = new VarExp(0, tid); e->type = tid->type;\<close>\<close>

definition VarExp :: "state \<Rightarrow> addr \<Rightarrow> Expression" where
  "VarExp s a = \<lparr>var = a, exp_type = td_type (heap s a)\<rparr>"

definition getTypeInfo ::
  "config \<Rightarrow> Scope option \<Rightarrow> Type \<Rightarrow> state \<Rightarrow> (error + Expression) \<times> state" where
  "getTypeInfo cfg sc self s =
     (let t = merge cfg self
      in case vtinfo s t of
           Some a \<Rightarrow> (Inr (VarExp s a), s)
         | None \<Rightarrow>
             (case new_object (getTypeInfoDeclaration cfg t) s of
                (a, s0) \<Rightarrow>
                  (let s1 = s0\<lparr>vtinfo := (vtinfo s0)(t \<mapsto> a)\<rparr>
                   in if \<not> builtinTypeInfo t
                      then (case sc of
                              Some scope \<Rightarrow>
                                (let m = importedFrom scope;
                                     s2 = s1\<lparr>members := (members s1)(m := members s1 m @ [a])\<rparr>
                                 in (Inr (VarExp s2 a), s2))
                            | None \<Rightarrow>
                                (case toObjFile cfg a s1 of
                                   (Inl e, s2) \<Rightarrow> (Inl e, s2)
                                 | (Inr u, s2) \<Rightarrow> (Inr (VarExp s2 a), s2)))
                      else (Inr (VarExp s1 a), s1))))"

subsection \<open>The canonicalized descriptor\<close>

text \<open>The code at label \<open>Linternal\<close>.\<close>

definition Linternal :: "config \<Rightarrow> Type \<Rightarrow> state \<Rightarrow> (error + Expression) \<times> state" where
  "Linternal cfg t s =
     (case internalTI s (ty t) of
        Some tid \<Rightarrow> (Inr (VarExp s tid), s)
      | None \<Rightarrow>
          (case new_object (new_TypeInfoDeclaration cfg TypeInfoPlainDeclaration t 1) s of
             (tid, s0) \<Rightarrow>
               (let s1 = s0\<lparr>internalTI := (internalTI s0)(ty t \<mapsto> tid)\<rparr>
                in (Inr (VarExp s1 tid), s1))))"

definition getInternalTypeInfo ::
  "config \<Rightarrow> Scope option \<Rightarrow> Type \<Rightarrow> state \<Rightarrow> (error + Expression) \<times> state" where
  "getInternalTypeInfo cfg sc self s =
     (let t = toBasetype self
      in case t of
           TypeSArray n d \<Rightarrow> getTypeInfo cfg sc (arrayOf n) s
         | TypeClass cd isInterfaceDeclaration \<Rightarrow>
             (if isInterfaceDeclaration then getTypeInfo cfg sc t s else Linternal cfg t s)
         | TypeDArray n \<Rightarrow>
             (if ty n \<noteq> Tclass then getTypeInfo cfg sc t s else Linternal cfg t s)
         | TypeFunction ps r \<Rightarrow> Linternal cfg t s
         | TypeDelegate f \<Rightarrow> Linternal cfg t s
         | TypePointer n \<Rightarrow> Linternal cfg t s
         | _ \<Rightarrow> getTypeInfo cfg sc t s)"

section \<open>Auxiliary definitions\<close>

text \<open>
  The function a creation adds to the module.
\<close>

definition mk_function :: "creation \<Rightarrow> LLFunction" where
  "mk_function c = (case c of (n, fty, A) \<Rightarrow>
      \<lparr>fn_name = n, fn_type = fty, fn_linkage = ExternalLinkage, fn_attrs = A\<rparr>)"

text \<open>
  The attribute list the Runtime Module records for a name.
\<close>

definition declared_attrs :: "config \<Rightarrow> string \<Rightarrow> AttrListPtr option" where
  "declared_attrs cfg n = map_option fn_attrs (getFunction (LLVM_D_BuildRuntimeModule cfg) n)"

text \<open>
  The descriptor an operation answered with, if it returned.
\<close>

definition descriptor_of :: "(error + Expression) \<times> state \<Rightarrow> addr option" where
  "descriptor_of r = (case fst r of Inl e \<Rightarrow> None | Inr e \<Rightarrow> Some (var e))"

text \<open>
  The descriptors attached to types and the shared placeholders are objects allocated
  by two different \<open>new\<close> expressions: all of them lie below the allocation pointer
  and no placeholder is attached to a type.
\<close>

definition descriptors_apart :: "state \<Rightarrow> bool" where
  "descriptors_apart s =
     ((\<forall>k a. internalTI s k = Some a \<longrightarrow> a < next_free s)
      \<and> (\<forall>t a. vtinfo s t = Some a \<longrightarrow> a < next_free s)
      \<and> (\<forall>k t a. internalTI s k = Some a \<longrightarrow> vtinfo s t \<noteq> Some a))"

text \<open>
  A concrete configuration (a 64-bit x86 host whose front end hands over merged types),
  the state at the start of a session (no Runtime Module, no descriptor attached, an
  empty collapse table), and three small target modules: one that already declares a
  descriptor global, one that already declares a support routine, and one whose
  global variable has the name of a support routine. They are the concrete inputs of
  the examples below.
\<close>

definition host_config :: config where
  "host_config =
     \<lparr>noruntime = False, cpu = ARCHx86_64, DtoSize_t = IntegerTy 64,
      objectTy = PointerTy (NamedTy ''object.Object''),
      classInfoTy = PointerTy (NamedTy ''object.ClassInfo''),
      typeInfoTy = PointerTy (NamedTy ''object.TypeInfo''),
      DtoMutexType = NamedTy ''D_CRITICAL_SECTION'',
      typeinfo_type = TypeClass ''TypeInfo'' False,
      merge = (\<lambda>t. t),
      mangle = (\<lambda>d. ''_D10TypeInfo_'' @ (if td_internal d = 0 then ''x'' else ''i'')),
      uniqueName = (\<lambda>m n. n @ ''1'')\<rparr>"

definition initial_state :: "config \<Rightarrow> LLModule \<Rightarrow> state" where
  "initial_state cfg target =
     \<lparr>runtime_M = None, gIR_module = target, vtinfo = (\<lambda>t. None), internalTI = (\<lambda>k. None),
      heap = (\<lambda>a. new_TypeInfoDeclaration cfg TypeInfoPlainDeclaration (TypeBasic 0) 0),
      next_free = 0, members = (\<lambda>m. [])\<rparr>"

definition app_with_global :: LLModule where
  "app_with_global =
     \<lparr>mod_name = ''app'', mod_functions = [],
      mod_globals = [\<lparr>gv_name = ''_D10TypeInfo_x'', gv_valueType = NamedTy ''object.TypeInfo'',
                      gv_isConstant = False, gv_linkage = ExternalLinkage,
                      gv_hasInitializer = False\<rparr>]\<rparr>"

definition app_with_function :: LLModule where
  "app_with_function =
     \<lparr>mod_name = ''app'',
      mod_functions = [\<lparr>fn_name = ''_d_invariant'',
                        fn_type = FunctionTy VoidTy [PointerTy (NamedTy ''object.Object'')] False,
                        fn_linkage = ExternalLinkage, fn_attrs = {}\<rparr>],
      mod_globals = []\<rparr>"

definition app_with_clash :: LLModule where
  "app_with_clash =
     \<lparr>mod_name = ''app'', mod_functions = [],
      mod_globals = [\<lparr>gv_name = ''_d_newarrayT'', gv_valueType = IntegerTy 32,
                      gv_isConstant = False, gv_linkage = ExternalLinkage,
                      gv_hasInitializer = False\<rparr>]\<rparr>"

section \<open>Properties of the Runtime ABI Registry\<close>

subsection \<open>The symbol table\<close>

lemma getFunction_find: "getFunction m n = find (\<lambda>f. fn_name f = n) (mod_functions m)"
  by (auto simp: getFunction_def getNamedValue_def split: option.splits GlobalValue.splits)

lemma getNamedGlobal_find:
  "getNamedGlobal m n =
     (case find (\<lambda>f. fn_name f = n) (mod_functions m) of
        Some f \<Rightarrow> None
      | None \<Rightarrow> find (\<lambda>g. gv_name g = n) (mod_globals m))"
  by (auto simp: getNamedGlobal_def getNamedValue_def split: option.splits GlobalValue.splits)

lemma getNamedValue_None:
  "getNamedValue m n = None
     \<longleftrightarrow> getFunction m n = None \<and> n \<notin> gv_name ` set (mod_globals m)"
proof (cases "find (\<lambda>f. fn_name f = n) (mod_functions m)")
  case None
  have "(find (\<lambda>g. gv_name g = n) (mod_globals m) = None)
        = (n \<notin> gv_name ` set (mod_globals m))"
    by (auto simp: find_None_iff)
  with None show ?thesis by (simp add: getFunction_find getNamedValue_def)
next
  case (Some f)
  then show ?thesis by (simp add: getFunction_find getNamedValue_def)
qed

lemma getNamedValue_variable:
  assumes "getFunction m n = None" and "getNamedValue m n = Some F"
  shows "\<exists>g. F = VariableValue g"
  using assms by (auto simp: getFunction_def split: GlobalValue.splits)

subsection \<open>The catalogue\<close>

lemma foldl_create: "foldl create m cs = m\<lparr>mod_functions := mod_functions m @ map mk_function cs\<rparr>"
  by (induction cs arbitrary: m) (auto simp: create_def Function_Create_def mk_function_def)

lemma build_functions: "mod_functions (LLVM_D_BuildRuntimeModule cfg) = map mk_function (catalogue cfg)"
  by (simp add: LLVM_D_BuildRuntimeModule_def foldl_create new_Module_def)

lemma build_globals: "mod_globals (LLVM_D_BuildRuntimeModule cfg) = []"
  by (simp add: LLVM_D_BuildRuntimeModule_def foldl_create new_Module_def)

lemmas block_defs = catalogue_def diagnostics_block_def allocation_block_def array_init_block_def
  ARRAY_INIT_def STR_APPLY1_def STR_APPLY2_def STR_APPLY_R1_def STR_APPLY_R2_def str_apply_block_def
  cast_block_def array_algorithms_block_def associative_array_block_def
  module_and_exception_block_def switch_block_def synchronization_block_def
  eh_and_invariant_block_def

lemmas attr_defs = NoAttrs_def addAttr_def FunctionIndex_def Attr_NoAlias_def Attr_NoUnwind_def
  Attr_ReadOnly_def Attr_ReadOnly_NoUnwind_def Attr_ReadOnly_1_NoCapture_def
  Attr_ReadOnly_1_3_NoCapture_def Attr_ReadOnly_1_4_NoCapture_def
  Attr_ReadOnly_NoUnwind_1_NoCapture_def Attr_ReadNone_def Attr_1_NoCapture_def
  Attr_NoAlias_1_NoCapture_def Attr_NoAlias_3_NoCapture_def Attr_1_2_NoCapture_def
  Attr_1_3_NoCapture_def Attr_1_4_NoCapture_def

lemma runtime_names_distinct: "distinct (map fst (catalogue cfg))"
  by (simp add: block_defs Let_def)

lemma getFunction_build:
  "getFunction (LLVM_D_BuildRuntimeModule cfg) n = map_option mk_function (find (\<lambda>c. fst c = n) (catalogue cfg))"
proof -
  have "\<And>cs. find (\<lambda>f. fn_name f = n) (map mk_function cs) = map_option mk_function (find (\<lambda>c. fst c = n) cs)"
  proof -
    fix cs show "find (\<lambda>f. fn_name f = n) (map mk_function cs) = map_option mk_function (find (\<lambda>c. fst c = n) cs)"
      by (induction cs) (auto simp: mk_function_def split: prod.splits)
  qed
  then show ?thesis by (simp add: getFunction_find build_functions)
qed

lemma catalogued_found:
  assumes "n \<in> fst ` set (catalogue cfg)"
  shows "\<exists>fn. getFunction (LLVM_D_BuildRuntimeModule cfg) n = Some fn \<and> fn_name fn = n"
proof -
  from assms obtain c where c: "c \<in> set (catalogue cfg)" "fst c = n" by auto
  then have "\<exists>x. x \<in> set (catalogue cfg) \<and> fst x = n" by blast
  then have "find (\<lambda>c. fst c = n) (catalogue cfg) \<noteq> None"
    by (simp add: find_None_iff)
  then obtain c' where f: "find (\<lambda>c. fst c = n) (catalogue cfg) = Some c'" by auto
  then have "fst c' = n" by (auto simp: find_Some_iff)
  with f show ?thesis by (auto simp: getFunction_build mk_function_def split: prod.splits)
qed

lemma declared_attrs_catalogue:
  "declared_attrs cfg n = map_option (\<lambda>c. snd (snd c)) (find (\<lambda>c. fst c = n) (catalogue cfg))"
  by (cases "find (\<lambda>c. fst c = n) (catalogue cfg)")
     (auto simp: declared_attrs_def getFunction_build mk_function_def split: prod.splits)

subsection \<open>Lookup and insertion\<close>

lemma ensure_M_eq:
  "ensure_M cfg s = Inr (if runtime_M s = None then s\<lparr>runtime_M := Some (LLVM_D_BuildRuntimeModule cfg)\<rparr> else s)"
  by (simp add: ensure_M_def runtime_failed_def LLVM_D_InitRuntime_def)

lemma getFunction_name: "getFunction m n = Some f \<Longrightarrow> fn_name f = n \<and> f \<in> set (mod_functions m)"
  by (auto simp: getFunction_find find_Some_iff)

lemma getFunction_None: "getFunction m n = None \<Longrightarrow> \<forall>f \<in> set (mod_functions m). fn_name f \<noteq> n"
  by (auto simp: getFunction_find find_None_iff)

lemma find_append_miss: "find P xs = None \<Longrightarrow> find P (xs @ ys) = find P ys"
  by (induction xs) (auto split: if_splits)

lemma distinct_one:
  "distinct (map g xs) \<Longrightarrow> x \<in> set xs \<Longrightarrow> length (filter (\<lambda>y. g y = g x) xs) = 1"
proof (induction xs)
  case Nil then show ?case by simp
next
  case (Cons y ys)
  show ?case
  proof (cases "y = x")
    case True
    with Cons.prems have "\<forall>z \<in> set ys. g z \<noteq> g x" by (auto simp: image_iff)
    then have "filter (\<lambda>y. g y = g x) ys = []" by (auto simp: filter_empty_conv)
    with True show ?thesis by simp
  next
    case False
    with Cons.prems have xin: "x \<in> set ys" by auto
    with Cons.prems have "g y \<noteq> g x" by (auto simp: image_iff)
    with Cons xin show ?thesis by simp
  qed
qed

lemma insertion_result:
  assumes nr: "\<not> noruntime cfg"
      and miss: "getFunction target name = None"
      and rt: "runtime_M s = Some M"
      and fn: "getFunction M name = Some fn"
      and res: "LLVM_D_GetRuntimeFunction cfg target name s = (Inr resfn, target1, s1)"
  shows "resfn = \<lparr>fn_name = name, fn_type = fn_type fn, fn_linkage = ExternalLinkage,
                   fn_attrs = fn_attrs fn\<rparr>
       \<and> mod_functions target1 = mod_functions target @ [resfn] \<and> s1 = s"
proof -
  define new where "new = \<lparr>fn_name = name, fn_type = fn_type fn, fn_linkage = ExternalLinkage,
                            fn_attrs = NoAttrs\<rparr>"
  have same: "map (\<lambda>f. if fn_name f = name then f\<lparr>fn_attrs := fn_attrs fn\<rparr> else f)
                (mod_functions target) = mod_functions target"
    using getFunction_None[OF miss] by (simp add: map_idI)
  have ens: "ensure_M cfg s = Inr s" using rt by (simp add: ensure_M_eq)
  obtain r tg where g: "getOrInsertFunction (uniqueName cfg) target name (fn_type fn) = (r, tg)"
    by (metis prod.exhaust)
  from res nr miss rt fn ens g obtain f0 where r: "r = Inr f0"
    and out: "resfn = f0\<lparr>fn_attrs := fn_attrs fn\<rparr>"
             "target1 = setAttributes name (fn_attrs fn) tg" "s1 = s"
    by (cases r) (auto simp: LLVM_D_GetRuntimeFunction_def Let_def)
  have ins: "f0 = new \<and> mod_functions tg = mod_functions target @ [new]"
  proof (cases "getNamedValue target name")
    case None
    with g r show ?thesis by (auto simp: getOrInsertFunction_def Let_def new_def)
  next
    case (Some F)
    from getNamedValue_variable[OF miss Some] obtain gl where F: "F = VariableValue gl" by blast
    with g r Some show ?thesis
      by (auto simp: getOrInsertFunction_def Let_def new_def split: if_splits)
  qed
  with out same show ?thesis by (simp add: setAttributes_def new_def)
qed

lemma insert_path:
  assumes nr: "\<not> noruntime cfg"
      and miss: "getFunction target name = None"
      and ng: "name \<notin> gv_name ` set (mod_globals target)"
      and rt: "runtime_M s = Some M"
      and fn: "getFunction M name = Some fn"
  shows "LLVM_D_GetRuntimeFunction cfg target name s =
          (Inr \<lparr>fn_name = name, fn_type = fn_type fn, fn_linkage = ExternalLinkage, fn_attrs = fn_attrs fn\<rparr>,
           target\<lparr>mod_functions := mod_functions target @
              [\<lparr>fn_name = name, fn_type = fn_type fn, fn_linkage = ExternalLinkage, fn_attrs = fn_attrs fn\<rparr>]\<rparr>, s)"
proof -
  have "map (\<lambda>f. if fn_name f = name then f\<lparr>fn_attrs := fn_attrs fn\<rparr> else f) (mod_functions target) = mod_functions target"
    using getFunction_None[OF miss] by (simp add: map_idI)
  moreover have "getNamedValue target name = None"
    using miss ng by (simp add: getNamedValue_None)
  ultimately show ?thesis
    using nr miss rt fn
    by (simp add: LLVM_D_GetRuntimeFunction_def ensure_M_eq getOrInsertFunction_def Let_def setAttributes_def)
qed

lemma found_path:
  assumes nr: "\<not> noruntime cfg" and hit: "getFunction target name = Some f"
  shows "LLVM_D_GetRuntimeFunction cfg target name s = (Inr f, target, snd (LLVM_D_InitRuntime cfg s))"
  using nr hit by (simp add: LLVM_D_GetRuntimeFunction_def ensure_M_eq LLVM_D_InitRuntime_def)

lemma GetRuntimeFunction_init:
  assumes "\<not> noruntime cfg"
  shows "LLVM_D_GetRuntimeFunction cfg target name (snd (LLVM_D_InitRuntime cfg s))
         = LLVM_D_GetRuntimeFunction cfg target name s"
proof -
  define s0 where "s0 = snd (LLVM_D_InitRuntime cfg s)"
  have e1: "ensure_M cfg s = Inr s0"
    by (simp add: ensure_M_eq s0_def LLVM_D_InitRuntime_def)
  have e2: "ensure_M cfg s0 = Inr s0"
    by (simp add: ensure_M_eq s0_def LLVM_D_InitRuntime_def)
  show ?thesis
    unfolding s0_def[symmetric] LLVM_D_GetRuntimeFunction_def using assms by (simp add: e1 e2)
qed

text \<open>The null dereference of \<open>M\<close> is never reached.\<close>

lemma ensure_M_present: "ensure_M cfg s = Inr s1 \<Longrightarrow> runtime_M s1 \<noteq> None"
  by (auto simp: ensure_M_eq split: if_splits)

lemma GetRuntimeFunction_no_null:
  "fst (LLVM_D_GetRuntimeFunction cfg target name s) \<noteq> Inl NullDereference"
  by (auto simp: LLVM_D_GetRuntimeFunction_def ensure_M_eq PolicyViolation_def
      getOrInsertFunction_def Let_def split: option.splits GlobalValue.splits)

lemma GetRuntimeGlobal_no_null:
  "fst (LLVM_D_GetRuntimeGlobal cfg target name s) \<noteq> Inl NullDereference"
  by (auto simp: LLVM_D_GetRuntimeGlobal_def ensure_M_eq PolicyViolation_def
      new_GlobalVariable_def Let_def split: option.splits)

text \<open>
  Claim C7, amended. With the policy flag enabled, for a name of the catalogue and a
  target module that holds no global variable of that name (and whose functions have
  distinct names, as in every LLVM module), two calls of
  \<open>LLVM_D_GetRuntimeFunction\<close> return the same declaration, the second call
  changes neither the target nor the state, and the target then holds exactly one
  function of that name.
\<close>

theorem fetchFunction_single_declaration:
  assumes nr: "\<not> noruntime cfg"
      and cat: "name \<in> fst ` set (catalogue cfg)"
      and rt: "runtime_M s = None \<or> runtime_M s = Some (LLVM_D_BuildRuntimeModule cfg)"
      and wf: "distinct (map fn_name (mod_functions target))"
      and ng: "name \<notin> gv_name ` set (mod_globals target)"
  shows "\<exists>fn target1 s1.
           LLVM_D_GetRuntimeFunction cfg target name s = (Inr fn, target1, s1)
         \<and> LLVM_D_GetRuntimeFunction cfg target1 name s1 = (Inr fn, target1, s1)
         \<and> length (filter (\<lambda>f. fn_name f = name) (mod_functions target1)) = 1"
proof -
  define s1 where "s1 = snd (LLVM_D_InitRuntime cfg s)"
  have rt1: "runtime_M s1 = Some (LLVM_D_BuildRuntimeModule cfg)"
    using rt by (auto simp: s1_def LLVM_D_InitRuntime_def)
  have idem: "snd (LLVM_D_InitRuntime cfg s1) = s1"
    using rt1 by (simp add: LLVM_D_InitRuntime_def)
  show ?thesis
  proof (cases "getFunction target name")
    case (Some f)
    from getFunction_name[OF Some] have nm: "fn_name f = name" and mem: "f \<in> set (mod_functions target)"
      by auto
    have one: "length (filter (\<lambda>y. fn_name y = name) (mod_functions target)) = 1"
      using distinct_one[OF wf mem] nm by simp
    have c1: "LLVM_D_GetRuntimeFunction cfg target name s = (Inr f, target, s1)"
      using found_path[OF nr Some] by (simp add: s1_def)
    have c2: "LLVM_D_GetRuntimeFunction cfg target name s1 = (Inr f, target, s1)"
      using found_path[OF nr Some, of s1] idem by simp
    from c1 c2 one show ?thesis by blast
  next
    case None
    from catalogued_found[OF cat] obtain fn where
      fn: "getFunction (LLVM_D_BuildRuntimeModule cfg) name = Some fn" by blast
    define new where "new = \<lparr>fn_name = name, fn_type = fn_type fn, fn_linkage = ExternalLinkage,
                              fn_attrs = fn_attrs fn\<rparr>"
    define target1 where "target1 = target\<lparr>mod_functions := mod_functions target @ [new]\<rparr>"
    have c1': "LLVM_D_GetRuntimeFunction cfg target name s1 = (Inr new, target1, s1)"
      using insert_path[OF nr None ng rt1 fn] by (simp add: new_def target1_def)
    then have c1: "LLVM_D_GetRuntimeFunction cfg target name s = (Inr new, target1, s1)"
      using GetRuntimeFunction_init[OF nr, of target name s] by (simp add: s1_def)
    have hit: "getFunction target1 name = Some new"
      using None by (simp add: getFunction_find target1_def find_append_miss new_def)
    have c2: "LLVM_D_GetRuntimeFunction cfg target1 name s1 = (Inr new, target1, s1)"
      using found_path[OF nr hit, of s1] idem by simp
    have "filter (\<lambda>f. fn_name f = name) (mod_functions target) = []"
      using getFunction_None[OF None] by (auto simp: filter_empty_conv)
    then have one: "length (filter (\<lambda>f. fn_name f = name) (mod_functions target1)) = 1"
      by (simp add: target1_def new_def)
    from c1 c2 one show ?thesis by blast
  qed
qed

theorem fetchFunction_single_declaration_witness:
  "\<not> noruntime host_config
   \<and> ''_d_newarrayT'' \<in> fst ` set (catalogue host_config)
   \<and> distinct (map fn_name (mod_functions (new_Module ''app'')))
   \<and> ''_d_newarrayT'' \<notin> gv_name ` set (mod_globals (new_Module ''app''))
   \<and> (\<exists>fn target1 s1.
         LLVM_D_GetRuntimeFunction host_config (new_Module ''app'') ''_d_newarrayT''
           (initial_state host_config (new_Module ''app'')) = (Inr fn, target1, s1)
       \<and> LLVM_D_GetRuntimeFunction host_config target1 ''_d_newarrayT'' s1 = (Inr fn, target1, s1)
       \<and> length (filter (\<lambda>f. fn_name f = ''_d_newarrayT'') (mod_functions target1)) = 1)"
proof -
  have h1: "\<not> noruntime host_config" by (simp add: host_config_def)
  have h2: "''_d_newarrayT'' \<in> fst ` set (catalogue host_config)"
    by (simp add: block_defs Let_def)
  have h3: "runtime_M (initial_state host_config (new_Module ''app'')) = None
            \<or> runtime_M (initial_state host_config (new_Module ''app''))
               = Some (LLVM_D_BuildRuntimeModule host_config)"
    by (simp add: initial_state_def)
  have h4: "distinct (map fn_name (mod_functions (new_Module ''app'')))"
    by (simp add: new_Module_def)
  have h5: "''_d_newarrayT'' \<notin> gv_name ` set (mod_globals (new_Module ''app''))"
    by (simp add: new_Module_def)
  from fetchFunction_single_declaration[OF h1 h2 h3 h4 h5] h1 h2 h4 h5 show ?thesis by simp
qed

text \<open>
  Claim C7 as stated fails for a target whose global variable has the routine's name:
  \<open>getFunction\<close> misses, \<open>getOrInsertFunction\<close> finds the global variable, and the
  cast to a function asserts. No declaration is returned and none is inserted.
\<close>

theorem fetchFunction_single_declaration_counterexample:
  "\<not> noruntime host_config
   \<and> ''_d_newarrayT'' \<in> fst ` set (catalogue host_config)
   \<and> distinct (map fn_name (mod_functions app_with_clash))
   \<and> LLVM_D_GetRuntimeFunction host_config app_with_clash ''_d_newarrayT''
        (initial_state host_config app_with_clash)
      = (Inl (AssertionFailed ''cast<llvm::Function>''), app_with_clash,
         (initial_state host_config app_with_clash)
           \<lparr>runtime_M := Some (LLVM_D_BuildRuntimeModule host_config)\<rparr>)"
proof -
  have h1: "\<not> noruntime host_config" by (simp add: host_config_def)
  have h2: "''_d_newarrayT'' \<in> fst ` set (catalogue host_config)"
    by (simp add: block_defs Let_def)
  from catalogued_found[OF h2] obtain fn where
    fn: "getFunction (LLVM_D_BuildRuntimeModule host_config) ''_d_newarrayT'' = Some fn" by blast
  have v: "getNamedValue app_with_clash ''_d_newarrayT''
           = Some (VariableValue \<lparr>gv_name = ''_d_newarrayT'', gv_valueType = IntegerTy 32,
                      gv_isConstant = False, gv_linkage = ExternalLinkage,
                      gv_hasInitializer = False\<rparr>)"
    by (simp add: getNamedValue_def app_with_clash_def)
  have m: "getFunction app_with_clash ''_d_newarrayT'' = None"
    by (simp add: getFunction_find app_with_clash_def)
  have "LLVM_D_GetRuntimeFunction host_config app_with_clash ''_d_newarrayT''
        (initial_state host_config app_with_clash)
      = (Inl (AssertionFailed ''cast<llvm::Function>''), app_with_clash,
         (initial_state host_config app_with_clash)
           \<lparr>runtime_M := Some (LLVM_D_BuildRuntimeModule host_config)\<rparr>)"
    using h1 fn v m
    by (simp add: LLVM_D_GetRuntimeFunction_def ensure_M_eq getOrInsertFunction_def Let_def
        initial_state_def)
  with h1 h2 show ?thesis by (simp add: app_with_clash_def)
qed

subsection \<open>The policy gate\<close>

text \<open>
  Claim C2, amended. With \<open>-noruntime\<close> active, every call of
  \<open>LLVM_D_GetRuntimeFunction\<close> ends in the fatal policy diagnostic, whatever the
  target holds; a call of \<open>LLVM_D_GetRuntimeGlobal\<close> ends in it when the target has
  no global of that name, and returns the target's global otherwise. In every case
  the target module and the state are left as they were.
\<close>

theorem policy_gate:
  assumes "noruntime cfg"
  shows "LLVM_D_GetRuntimeFunction cfg target name s = (Inl PolicyViolation, target, s)
       \<and> LLVM_D_GetRuntimeGlobal cfg target name s
         = (case getNamedGlobal target name of
              None \<Rightarrow> Inl PolicyViolation
            | Some gv \<Rightarrow> Inr gv, target, s)"
  using assms
  by (simp add: LLVM_D_GetRuntimeFunction_def LLVM_D_GetRuntimeGlobal_def split: option.splits)

theorem policy_gate_witness:
  "noruntime (host_config\<lparr>noruntime := True\<rparr>)
   \<and> LLVM_D_GetRuntimeFunction (host_config\<lparr>noruntime := True\<rparr>) app_with_function
        ''_d_invariant'' (initial_state host_config app_with_function)
      = (Inl PolicyViolation, app_with_function, initial_state host_config app_with_function)
   \<and> LLVM_D_GetRuntimeGlobal (host_config\<lparr>noruntime := True\<rparr>) app_with_function
        ''_D10TypeInfo_x'' (initial_state host_config app_with_function)
      = (Inl PolicyViolation, app_with_function, initial_state host_config app_with_function)"
proof -
  have h: "noruntime (host_config\<lparr>noruntime := True\<rparr>)" by simp
  from policy_gate[OF h, of app_with_function "''_d_invariant''"
      "initial_state host_config app_with_function"]
    policy_gate[OF h, of app_with_function "''_D10TypeInfo_x''"
      "initial_state host_config app_with_function"] h
  show ?thesis by (simp add: getNamedGlobal_find app_with_function_def)
qed

text \<open>
  Claim C2 as stated fails for \<open>LLVM_D_GetRuntimeGlobal\<close>: the lookup in the
  target comes before the policy check, so with \<open>-noruntime\<close> active a global the
  target already holds is returned.
\<close>

theorem policy_gate_counterexample:
  "noruntime (host_config\<lparr>noruntime := True\<rparr>)
   \<and> LLVM_D_GetRuntimeGlobal (host_config\<lparr>noruntime := True\<rparr>) app_with_global
        ''_D10TypeInfo_x'' (initial_state host_config app_with_global)
      = (Inr \<lparr>gv_name = ''_D10TypeInfo_x'', gv_valueType = NamedTy ''object.TypeInfo'',
              gv_isConstant = False, gv_linkage = ExternalLinkage, gv_hasInitializer = False\<rparr>,
         app_with_global, initial_state host_config app_with_global)"
  by (simp add: LLVM_D_GetRuntimeGlobal_def getNamedGlobal_find app_with_global_def)

text \<open>
  Claim C3, amended. When the target already holds a declaration of that name,
  \<open>LLVM_D_GetRuntimeFunction\<close> returns it unchanged and leaves the target unchanged
  provided \<open>-noruntime\<close> is not active, after building the Runtime Module if it is
  absent; with \<open>-noruntime\<close> active the call ends in the fatal policy diagnostic,
  since the policy check is the first step.
\<close>

theorem existing_declaration:
  assumes "getFunction target name = Some fn"
  shows "LLVM_D_GetRuntimeFunction cfg target name s
         = (if noruntime cfg then (Inl PolicyViolation, target, s)
            else (Inr fn, target, snd (LLVM_D_InitRuntime cfg s)))"
  using assms
  by (simp add: LLVM_D_GetRuntimeFunction_def ensure_M_eq LLVM_D_InitRuntime_def)

theorem existing_declaration_witness:
  "getFunction app_with_function ''_d_invariant''
     = Some \<lparr>fn_name = ''_d_invariant'',
             fn_type = FunctionTy VoidTy [PointerTy (NamedTy ''object.Object'')] False,
             fn_linkage = ExternalLinkage, fn_attrs = {}\<rparr>
   \<and> LLVM_D_GetRuntimeFunction host_config app_with_function ''_d_invariant''
        (initial_state host_config app_with_function)
      = (Inr \<lparr>fn_name = ''_d_invariant'',
              fn_type = FunctionTy VoidTy [PointerTy (NamedTy ''object.Object'')] False,
              fn_linkage = ExternalLinkage, fn_attrs = {}\<rparr>,
         app_with_function,
         (initial_state host_config app_with_function)
           \<lparr>runtime_M := Some (LLVM_D_BuildRuntimeModule host_config)\<rparr>)"
proof -
  have h: "getFunction app_with_function ''_d_invariant''
     = Some \<lparr>fn_name = ''_d_invariant'',
             fn_type = FunctionTy VoidTy [PointerTy (NamedTy ''object.Object'')] False,
             fn_linkage = ExternalLinkage, fn_attrs = {}\<rparr>"
    by (simp add: getFunction_find app_with_function_def)
  from existing_declaration[OF h, of host_config "initial_state host_config app_with_function"] h
  show ?thesis by (simp add: host_config_def LLVM_D_InitRuntime_def initial_state_def)
qed

text \<open>
  Claim C3 as stated fails with \<open>-noruntime\<close> active: the declaration is in the
  target and the call still ends in the policy diagnostic.
\<close>

theorem existing_declaration_counterexample:
  "getFunction app_with_function ''_d_invariant''
     = Some \<lparr>fn_name = ''_d_invariant'',
             fn_type = FunctionTy VoidTy [PointerTy (NamedTy ''object.Object'')] False,
             fn_linkage = ExternalLinkage, fn_attrs = {}\<rparr>
   \<and> LLVM_D_GetRuntimeFunction (host_config\<lparr>noruntime := True\<rparr>) app_with_function
        ''_d_invariant'' (initial_state host_config app_with_function)
      = (Inl PolicyViolation, app_with_function, initial_state host_config app_with_function)"
  by (simp add: LLVM_D_GetRuntimeFunction_def getFunction_find app_with_function_def)

subsection \<open>Attributes\<close>

lemma attrs_newarray:
  "declared_attrs cfg ''_d_newarrayT'' = Some {(0, NoAlias)}
   \<and> declared_attrs cfg ''_d_newarrayiT'' = Some {(0, NoAlias)}
   \<and> declared_attrs cfg ''_d_newarrayvT'' = Some {(0, NoAlias)}"
  by (simp add: declared_attrs_catalogue block_defs Let_def attr_defs)

lemma attrs_array_init_mem:
  "declared_attrs cfg ''_d_array_init_mem'' = Some {(1, NoCapture), (3, NoCapture)}"
  by (auto simp add: declared_attrs_catalogue block_defs Let_def attr_defs)

lemma attrs_casts:
  "declared_attrs cfg ''_d_toObject'' = Some {(FunctionIndex, ReadOnly), (FunctionIndex, NoUnwind)}
   \<and> declared_attrs cfg ''_d_interface_cast'' = Some {(FunctionIndex, ReadOnly), (FunctionIndex, NoUnwind)}
   \<and> declared_attrs cfg ''_d_dynamic_cast'' = Some {(FunctionIndex, ReadOnly), (FunctionIndex, NoUnwind)}"
  by (auto simp add: declared_attrs_catalogue block_defs Let_def attr_defs)

lemma attrs_aaLen:
  "declared_attrs cfg ''_aaLen'' = Some {(FunctionIndex, ReadOnly), (FunctionIndex, NoUnwind), (1, NoCapture)}"
  by (auto simp add: declared_attrs_catalogue block_defs Let_def attr_defs)

lemma attrs_aaIn:
  "declared_attrs cfg ''_aaIn'' = Some {(FunctionIndex, ReadOnly), (1, NoCapture), (3, NoCapture)}"
  by (auto simp add: declared_attrs_catalogue block_defs Let_def attr_defs)

lemma aa_readonly_names:
  "[n. (n, fty, A) \<leftarrow> associative_array_block cfg, (FunctionIndex, ReadOnly) \<in> A] = [''_aaLen'', ''_aaIn'']"
  by (simp add: associative_array_block_def Let_def attr_defs)

lemma readnone_names:
  "[n. (n, fty, A) \<leftarrow> catalogue cfg, (FunctionIndex, ReadNone) \<in> A] = [''_d_array_cast_len'']"
  by (simp add: block_defs Let_def attr_defs)

text \<open>
  Claim C4. For a name of the catalogue that the target does not declare yet (policy
  flag enabled), every declaration \<open>LLVM_D_GetRuntimeFunction\<close> inserts and returns
  carries the attribute list the Runtime Module records for that name, and it does
  insert one when no value of the target has the name. In the Runtime Module the
  three new-array allocators have a non-aliasing return, \<open>_d_array_init_mem\<close> has
  non-capturing parameters 1 and 3, and \<open>_d_toObject\<close>, \<open>_d_interface_cast\<close>
  and \<open>_d_dynamic_cast\<close> are read-only and non-throwing.
\<close>

theorem attribute_fidelity:
  assumes nr: "\<not> noruntime cfg"
      and rt: "runtime_M s = None \<or> runtime_M s = Some (LLVM_D_BuildRuntimeModule cfg)"
      and miss: "getFunction target name = None"
      and cat: "name \<in> fst ` set (catalogue cfg)"
  shows "(\<forall>resfn target1 s1.
            LLVM_D_GetRuntimeFunction cfg target name s = (Inr resfn, target1, s1)
            \<longrightarrow> getFunction target1 name = Some resfn
                \<and> mod_functions target1 = mod_functions target @ [resfn]
                \<and> Some (fn_attrs resfn) = declared_attrs cfg name)
       \<and> (name \<notin> gv_name ` set (mod_globals target)
            \<longrightarrow> (\<exists>resfn target1 s1.
                   LLVM_D_GetRuntimeFunction cfg target name s = (Inr resfn, target1, s1)))
       \<and> declared_attrs cfg ''_d_newarrayT'' = Some {(0, NoAlias)}
       \<and> declared_attrs cfg ''_d_newarrayiT'' = Some {(0, NoAlias)}
       \<and> declared_attrs cfg ''_d_newarrayvT'' = Some {(0, NoAlias)}
       \<and> declared_attrs cfg ''_d_array_init_mem'' = Some {(1, NoCapture), (3, NoCapture)}
       \<and> declared_attrs cfg ''_d_toObject''
           = Some {(FunctionIndex, ReadOnly), (FunctionIndex, NoUnwind)}
       \<and> declared_attrs cfg ''_d_interface_cast''
           = Some {(FunctionIndex, ReadOnly), (FunctionIndex, NoUnwind)}
       \<and> declared_attrs cfg ''_d_dynamic_cast''
           = Some {(FunctionIndex, ReadOnly), (FunctionIndex, NoUnwind)}"
proof -
  define s0 where "s0 = snd (LLVM_D_InitRuntime cfg s)"
  have rt0: "runtime_M s0 = Some (LLVM_D_BuildRuntimeModule cfg)"
    using rt by (auto simp: s0_def LLVM_D_InitRuntime_def)
  from catalogued_found[OF cat] obtain fn where
    fn: "getFunction (LLVM_D_BuildRuntimeModule cfg) name = Some fn" by blast
  have init: "LLVM_D_GetRuntimeFunction cfg target name s0
              = LLVM_D_GetRuntimeFunction cfg target name s"
    using GetRuntimeFunction_init[OF nr, of target name s] by (simp add: s0_def)
  have p1: "\<forall>resfn target1 s1.
            LLVM_D_GetRuntimeFunction cfg target name s = (Inr resfn, target1, s1)
            \<longrightarrow> getFunction target1 name = Some resfn
                \<and> mod_functions target1 = mod_functions target @ [resfn]
                \<and> Some (fn_attrs resfn) = declared_attrs cfg name"
  proof (intro allI impI)
    fix resfn target1 s1
    assume r: "LLVM_D_GetRuntimeFunction cfg target name s = (Inr resfn, target1, s1)"
    with init have r0: "LLVM_D_GetRuntimeFunction cfg target name s0 = (Inr resfn, target1, s1)"
      by simp
    from insertion_result[OF nr miss rt0 fn r0]
    have rf: "resfn = \<lparr>fn_name = name, fn_type = fn_type fn, fn_linkage = ExternalLinkage,
                       fn_attrs = fn_attrs fn\<rparr>"
      and fs: "mod_functions target1 = mod_functions target @ [resfn]" by simp_all
    have hit: "getFunction target1 name = Some resfn"
      using miss fs rf by (simp add: getFunction_find find_append_miss)
    have at: "Some (fn_attrs resfn) = declared_attrs cfg name"
      using fn rf by (simp add: declared_attrs_def)
    from hit fs at
    show "getFunction target1 name = Some resfn
          \<and> mod_functions target1 = mod_functions target @ [resfn]
          \<and> Some (fn_attrs resfn) = declared_attrs cfg name" by simp
  qed
  have p2: "name \<notin> gv_name ` set (mod_globals target)
            \<longrightarrow> (\<exists>resfn target1 s1.
                   LLVM_D_GetRuntimeFunction cfg target name s = (Inr resfn, target1, s1))"
  proof
    assume ng: "name \<notin> gv_name ` set (mod_globals target)"
    from insert_path[OF nr miss ng rt0 fn] init
    show "\<exists>resfn target1 s1.
            LLVM_D_GetRuntimeFunction cfg target name s = (Inr resfn, target1, s1)"
      by simp
  qed
  from p1 p2 attrs_newarray[of cfg] attrs_array_init_mem[of cfg] attrs_casts[of cfg]
  show ?thesis by simp
qed

theorem attribute_fidelity_witness:
  "\<not> noruntime host_config
   \<and> getFunction (new_Module ''app'') ''_d_toObject'' = None
   \<and> ''_d_toObject'' \<in> fst ` set (catalogue host_config)
   \<and> ''_d_toObject'' \<notin> gv_name ` set (mod_globals (new_Module ''app''))
   \<and> (\<exists>resfn target1 s1.
         LLVM_D_GetRuntimeFunction host_config (new_Module ''app'') ''_d_toObject''
           (initial_state host_config (new_Module ''app'')) = (Inr resfn, target1, s1)
       \<and> getFunction target1 ''_d_toObject'' = Some resfn
       \<and> fn_attrs resfn = {(FunctionIndex, ReadOnly), (FunctionIndex, NoUnwind)})"
proof -
  have h1: "\<not> noruntime host_config" by (simp add: host_config_def)
  have h2: "runtime_M (initial_state host_config (new_Module ''app'')) = None
            \<or> runtime_M (initial_state host_config (new_Module ''app''))
               = Some (LLVM_D_BuildRuntimeModule host_config)"
    by (simp add: initial_state_def)
  have h3: "getFunction (new_Module ''app'') ''_d_toObject'' = None"
    by (simp add: getFunction_find new_Module_def)
  have h4: "''_d_toObject'' \<in> fst ` set (catalogue host_config)"
    by (simp add: block_defs Let_def)
  have h5: "''_d_toObject'' \<notin> gv_name ` set (mod_globals (new_Module ''app''))"
    by (simp add: new_Module_def)
  note th = attribute_fidelity[OF h1 h2 h3 h4]
  from th h5 obtain resfn target1 s1 where
    r: "LLVM_D_GetRuntimeFunction host_config (new_Module ''app'') ''_d_toObject''
           (initial_state host_config (new_Module ''app'')) = (Inr resfn, target1, s1)"
    by blast
  with th have "getFunction target1 ''_d_toObject'' = Some resfn"
    and "Some (fn_attrs resfn) = declared_attrs host_config ''_d_toObject''" by blast+
  moreover from th have "declared_attrs host_config ''_d_toObject''
           = Some {(FunctionIndex, ReadOnly), (FunctionIndex, NoUnwind)}" by blast
  ultimately have "getFunction target1 ''_d_toObject'' = Some resfn
       \<and> fn_attrs resfn = {(FunctionIndex, ReadOnly), (FunctionIndex, NoUnwind)}" by simp
  with r h1 h3 h4 h5 show ?thesis by blast
qed

text \<open>
  Claim C8, amended. The read-only routines of the associative-array block are
  \<open>_aaLen\<close> and \<open>_aaIn\<close>. \<open>_aaLen\<close> is read-only and non-throwing with a
  non-capturing parameter 1 (the associative array, its only parameter); \<open>_aaIn\<close>
  is read-only with non-capturing parameters 1 (the associative array) and 3 (the key
  pointer). The only routine of the whole catalogue declared read-none is
  \<open>_d_array_cast_len\<close>.
\<close>

theorem aa_readonly_attributes:
  "declared_attrs cfg ''_aaLen''
     = Some {(FunctionIndex, ReadOnly), (FunctionIndex, NoUnwind), (1, NoCapture)}
   \<and> declared_attrs cfg ''_aaIn''
     = Some {(FunctionIndex, ReadOnly), (1, NoCapture), (3, NoCapture)}
   \<and> [n. (n, fty, A) \<leftarrow> associative_array_block cfg, (FunctionIndex, ReadOnly) \<in> A]
     = [''_aaLen'', ''_aaIn'']
   \<and> [n. (n, fty, A) \<leftarrow> catalogue cfg, (FunctionIndex, ReadNone) \<in> A]
     = [''_d_array_cast_len'']"
  using attrs_aaLen attrs_aaIn aa_readonly_names readnone_names by simp

text \<open>
  Claim C8 as stated fails: neither \<open>_aaLen\<close> nor \<open>_aaIn\<close> is declared
  read-none, and \<open>_aaIn\<close> is not declared non-throwing.
\<close>

theorem aa_readonly_counterexample:
  "declared_attrs host_config ''_aaLen''
     = Some {(FunctionIndex, ReadOnly), (FunctionIndex, NoUnwind), (1, NoCapture)}
   \<and> (FunctionIndex, ReadNone)
       \<notin> {(FunctionIndex, ReadOnly), (FunctionIndex, NoUnwind), (1, NoCapture)}
   \<and> declared_attrs host_config ''_aaIn''
     = Some {(FunctionIndex, ReadOnly), (1, NoCapture), (3, NoCapture)}
   \<and> (FunctionIndex, ReadNone) \<notin> {(FunctionIndex, ReadOnly), (1, NoCapture), (3, NoCapture)}
   \<and> (FunctionIndex, NoUnwind) \<notin> {(FunctionIndex, ReadOnly), (1, NoCapture), (3, NoCapture)}"
  using attrs_aaLen[of host_config] attrs_aaIn[of host_config] by (simp add: FunctionIndex_def)

subsection \<open>Lifecycle\<close>

text \<open>
  Claim C10. \<open>LLVM_D_InitRuntime\<close> and \<open>LLVM_D_FreeRuntime\<close> change nothing but
  the Runtime Module: the attached descriptors, the collapse table, the descriptor
  store and the modules being generated are as before. Initialisation builds the
  module only when it is absent, so a second call changes nothing; freeing leaves no
  module and is the identity when there is none.
\<close>

theorem runtime_lifecycle_frame:
  "vtinfo (snd (LLVM_D_InitRuntime cfg s)) = vtinfo s
   \<and> internalTI (snd (LLVM_D_InitRuntime cfg s)) = internalTI s
   \<and> heap (snd (LLVM_D_InitRuntime cfg s)) = heap s
   \<and> next_free (snd (LLVM_D_InitRuntime cfg s)) = next_free s
   \<and> members (snd (LLVM_D_InitRuntime cfg s)) = members s
   \<and> gIR_module (snd (LLVM_D_InitRuntime cfg s)) = gIR_module s
   \<and> vtinfo (LLVM_D_FreeRuntime s) = vtinfo s
   \<and> internalTI (LLVM_D_FreeRuntime s) = internalTI s
   \<and> heap (LLVM_D_FreeRuntime s) = heap s
   \<and> next_free (LLVM_D_FreeRuntime s) = next_free s
   \<and> members (LLVM_D_FreeRuntime s) = members s
   \<and> gIR_module (LLVM_D_FreeRuntime s) = gIR_module s
   \<and> runtime_M (snd (LLVM_D_InitRuntime cfg (s\<lparr>runtime_M := None\<rparr>)))
       = Some (LLVM_D_BuildRuntimeModule cfg)
   \<and> LLVM_D_InitRuntime cfg (s\<lparr>runtime_M := Some m\<rparr>) = (True, s\<lparr>runtime_M := Some m\<rparr>)
   \<and> LLVM_D_InitRuntime cfg (snd (LLVM_D_InitRuntime cfg s)) = LLVM_D_InitRuntime cfg s
   \<and> runtime_M (LLVM_D_FreeRuntime s) = None
   \<and> LLVM_D_FreeRuntime (s\<lparr>runtime_M := None\<rparr>) = s\<lparr>runtime_M := None\<rparr>"
  by (simp add: LLVM_D_InitRuntime_def LLVM_D_FreeRuntime_def)

section \<open>Properties of the Type Descriptor Canonicalizer\<close>

text \<open>
  Claim C9. The layout-construction path is dead: \<open>createTypeInfoArray\<close> and the
  \<open>toDt\<close> of every descriptor class stop at a failing assertion on every input.
\<close>

theorem layout_path_dead:
  "createTypeInfoArray sc args dim = Inl (AssertionFailed ''0'')
   \<and> (\<exists>msg. toDt k pdt = Inl (AssertionFailed msg))"
  by (cases k) (simp_all add: createTypeInfoArray_def)

subsection \<open>Emission\<close>

lemmas run_defs = getTypeInfo_def getInternalTypeInfo_def Linternal_def new_object_def VarExp_def
  new_TypeInfoDeclaration_def host_config_def initial_state_def arrayOf_def descriptor_of_def
  Let_def

lemma GetRuntimeGlobal_frame:
  assumes "LLVM_D_GetRuntimeGlobal cfg tgt n s = (r, tgt1, s1)"
  shows "heap s1 = heap s \<and> vtinfo s1 = vtinfo s \<and> internalTI s1 = internalTI s
         \<and> next_free s1 = next_free s \<and> members s1 = members s"
  using assms
  by (auto simp: LLVM_D_GetRuntimeGlobal_def ensure_M_eq
      split: option.splits if_splits prod.splits)

text \<open>
  A global the target lacks is never found in the Runtime Module, which declares
  functions only: on a miss \<open>LLVM_D_GetRuntimeGlobal\<close> always ends in a fatal exit.
\<close>

lemma GetRuntimeGlobal_hit:
  "getNamedGlobal tgt n = Some gv \<Longrightarrow> LLVM_D_GetRuntimeGlobal cfg tgt n s = (Inr gv, tgt, s)"
  by (simp add: LLVM_D_GetRuntimeGlobal_def)

lemma GetRuntimeGlobal_fatal:
  assumes "getNamedGlobal tgt n = None"
      and "runtime_M s = None \<or> runtime_M s = Some (LLVM_D_BuildRuntimeModule cfg)"
  shows "LLVM_D_GetRuntimeGlobal cfg tgt n s =
           (if noruntime cfg then (Inl PolicyViolation, tgt, s)
            else (Inl (Fatal (''Runtime global '' @ [CHR 0x27] @ n @ [CHR 0x27]
                              @ '' was not found'')),
                  tgt, s\<lparr>runtime_M := Some (LLVM_D_BuildRuntimeModule cfg)\<rparr>))"
proof -
  have "getNamedGlobal (LLVM_D_BuildRuntimeModule cfg) n = None"
    by (simp add: getNamedGlobal_find build_globals split: option.splits)
  with assms show ?thesis
    by (auto simp: LLVM_D_GetRuntimeGlobal_def ensure_M_eq)
qed

lemma GetRuntimeGlobal_miss:
  assumes "getNamedGlobal target n = None"
      and "runtime_M s = None \<or> runtime_M s = Some (LLVM_D_BuildRuntimeModule cfg)"
  shows "\<exists>e s1. LLVM_D_GetRuntimeGlobal cfg target n s = (Inl e, target, s1)"
  using GetRuntimeGlobal_fatal[OF assms] by simp

lemma toObjFile_latched: "llvmTouched (heap s a) \<Longrightarrow> toObjFile cfg a s = (Inr (), s)"
  by (simp add: toObjFile_def)

lemma toObjFile_frame:
  assumes "toObjFile cfg a s = (r, s1)"
  shows "vtinfo s1 = vtinfo s \<and> internalTI s1 = internalTI s \<and> next_free s1 = next_free s
         \<and> members s1 = members s"
proof (cases "llvmTouched (heap s a)")
  case True
  with assms show ?thesis by (simp add: toObjFile_def)
next
  case False
  define s0 where "s0 = s\<lparr>heap := (heap s)(a := (heap s a)\<lparr>llvmTouched := True\<rparr>)\<rparr>"
  obtain r2 tgt2 s2 where g: "LLVM_D_GetRuntimeGlobal cfg (gIR_module s0) (mangle cfg (heap s0 a)) s0 = (r2, tgt2, s2)"
    by (metis prod_cases3)
  from GetRuntimeGlobal_frame[OF g] have fr: "vtinfo s2 = vtinfo s \<and> internalTI s2 = internalTI s \<and> next_free s2 = next_free s
         \<and> members s2 = members s" by (simp add: s0_def)
  from assms False g fr show ?thesis
    by (cases r2) (auto simp: toObjFile_def Let_def s0_def)
qed

lemma toObjFile_returned:
  assumes "toObjFile cfg a s = (Inr u, s1)"
  shows "llvmTouched (heap s1 a) \<and> toObjFile cfg a s1 = (Inr (), s1)"
proof (cases "llvmTouched (heap s a)")
  case True
  with assms have "s1 = s" by (simp add: toObjFile_def)
  with True show ?thesis by (simp add: toObjFile_def)
next
  case False
  define s0 where "s0 = s\<lparr>heap := (heap s)(a := (heap s a)\<lparr>llvmTouched := True\<rparr>)\<rparr>"
  define nm where "nm = mangle cfg ((heap s a)\<lparr>llvmTouched := True\<rparr>)"
  obtain r2 tgt2 s2 where g: "LLVM_D_GetRuntimeGlobal cfg (gIR_module s) nm s0 = (r2, tgt2, s2)"
    by (metis prod_cases3)
  from assms False g obtain gv where r2: "r2 = Inr gv"
    by (cases r2) (auto simp: toObjFile_def Let_def s0_def nm_def)
  from assms False g r2 have s1: "s1 = s2\<lparr>gIR_module := tgt2,
                    heap := (heap s2)(a := (heap s2 a)\<lparr>llvmValue := Some gv\<rparr>)\<rparr>"
    by (auto simp: toObjFile_def Let_def s0_def nm_def)
  from GetRuntimeGlobal_frame[OF g] have h2: "heap s2 = heap s0" by simp
  have touched: "llvmTouched (heap s1 a)" by (simp add: s1 h2 s0_def)
  from touched toObjFile_latched[OF touched, of cfg] show ?thesis by simp
qed

text \<open>
  Claim C6, amended. The first call of \<open>toObjFile\<close> on a descriptor sets the latch
  and asks \<open>LLVM_D_GetRuntimeGlobal\<close> once for the mangled name in \<open>gIR->module\<close>.
  When that module already holds a global of that name, the descriptor is bound to
  it and the call returns; nothing else changes, and no new reference is declared.
  When the module holds none, the call ends in a fatal exit (the policy diagnostic
  with \<open>-noruntime\<close>, "Runtime global not found" otherwise), because the Runtime
  Module declares no globals. A call on a descriptor whose latch is set returns at
  once and changes nothing; so does every call that follows a call that returned.
\<close>

theorem toObjFile_emission:
  assumes rt: "runtime_M s = None \<or> runtime_M s = Some (LLVM_D_BuildRuntimeModule cfg)"
  shows "toObjFile cfg a s =
           (if llvmTouched (heap s a) then (Inr (), s)
            else (case getNamedGlobal (gIR_module s)
                         (mangle cfg ((heap s a)\<lparr>llvmTouched := True\<rparr>)) of
                    Some gv \<Rightarrow>
                      (Inr (),
                       s\<lparr>heap := (heap s)(a := (heap s a)\<lparr>llvmTouched := True,
                                                            llvmValue := Some gv\<rparr>)\<rparr>)
                  | None \<Rightarrow>
                      (if noruntime cfg
                       then (Inl PolicyViolation,
                             s\<lparr>heap := (heap s)(a := (heap s a)\<lparr>llvmTouched := True\<rparr>)\<rparr>)
                       else (Inl (Fatal (''Runtime global '' @ [CHR 0x27]
                                         @ mangle cfg ((heap s a)\<lparr>llvmTouched := True\<rparr>)
                                         @ [CHR 0x27] @ '' was not found'')),
                             s\<lparr>heap := (heap s)(a := (heap s a)\<lparr>llvmTouched := True\<rparr>),
                               runtime_M := Some (LLVM_D_BuildRuntimeModule cfg)\<rparr>))))
       \<and> (\<forall>s1. toObjFile cfg a s = (Inr (), s1)
            \<longrightarrow> llvmTouched (heap s1 a) \<and> toObjFile cfg a s1 = (Inr (), s1))"
proof -
  define s0 where "s0 = s\<lparr>heap := (heap s)(a := (heap s a)\<lparr>llvmTouched := True\<rparr>)\<rparr>"
  define nm where "nm = mangle cfg ((heap s a)\<lparr>llvmTouched := True\<rparr>)"
  have rt0: "runtime_M s0 = None \<or> runtime_M s0 = Some (LLVM_D_BuildRuntimeModule cfg)"
    using rt by (simp add: s0_def)
  have eq: "toObjFile cfg a s =
           (if llvmTouched (heap s a) then (Inr (), s)
            else (case getNamedGlobal (gIR_module s) nm of
                    Some gv \<Rightarrow>
                      (Inr (),
                       s\<lparr>heap := (heap s)(a := (heap s a)\<lparr>llvmTouched := True,
                                                            llvmValue := Some gv\<rparr>)\<rparr>)
                  | None \<Rightarrow>
                      (if noruntime cfg
                       then (Inl PolicyViolation, s0)
                       else (Inl (Fatal (''Runtime global '' @ [CHR 0x27] @ nm
                                         @ [CHR 0x27] @ '' was not found'')),
                             s0\<lparr>runtime_M := Some (LLVM_D_BuildRuntimeModule cfg)\<rparr>))))"
  proof (cases "llvmTouched (heap s a)")
    case True
    then show ?thesis by (simp add: toObjFile_def)
  next
    case False
    show ?thesis
    proof (cases "getNamedGlobal (gIR_module s) nm")
      case (Some gv)
      from GetRuntimeGlobal_hit[OF Some, of cfg s0]
      have "LLVM_D_GetRuntimeGlobal cfg (gIR_module s) nm s0 = (Inr gv, gIR_module s, s0)" .
      with False Some show ?thesis
        by (simp add: toObjFile_def Let_def s0_def nm_def)
    next
      case None
      from GetRuntimeGlobal_fatal[OF None rt0]
      have "LLVM_D_GetRuntimeGlobal cfg (gIR_module s) nm s0 =
           (if noruntime cfg then (Inl PolicyViolation, gIR_module s, s0)
            else (Inl (Fatal (''Runtime global '' @ [CHR 0x27] @ nm @ [CHR 0x27]
                              @ '' was not found'')),
                  gIR_module s, s0\<lparr>runtime_M := Some (LLVM_D_BuildRuntimeModule cfg)\<rparr>))" .
      with False None show ?thesis
        by (simp add: toObjFile_def Let_def s0_def nm_def)
    qed
  qed
  have again: "\<forall>s1. toObjFile cfg a s = (Inr (), s1)
            \<longrightarrow> llvmTouched (heap s1 a) \<and> toObjFile cfg a s1 = (Inr (), s1)"
    using toObjFile_returned by blast
  show ?thesis
  proof (rule conjI)
    show "\<forall>s1. toObjFile cfg a s = (Inr (), s1)
            \<longrightarrow> llvmTouched (heap s1 a) \<and> toObjFile cfg a s1 = (Inr (), s1)"
      by (rule again)
  next
    from eq show "toObjFile cfg a s =
           (if llvmTouched (heap s a) then (Inr (), s)
            else (case getNamedGlobal (gIR_module s)
                         (mangle cfg ((heap s a)\<lparr>llvmTouched := True\<rparr>)) of
                    Some gv \<Rightarrow>
                      (Inr (),
                       s\<lparr>heap := (heap s)(a := (heap s a)\<lparr>llvmTouched := True,
                                                            llvmValue := Some gv\<rparr>)\<rparr>)
                  | None \<Rightarrow>
                      (if noruntime cfg
                       then (Inl PolicyViolation,
                             s\<lparr>heap := (heap s)(a := (heap s a)\<lparr>llvmTouched := True\<rparr>)\<rparr>)
                       else (Inl (Fatal (''Runtime global '' @ [CHR 0x27]
                                         @ mangle cfg ((heap s a)\<lparr>llvmTouched := True\<rparr>)
                                         @ [CHR 0x27] @ '' was not found'')),
                             s\<lparr>heap := (heap s)(a := (heap s a)\<lparr>llvmTouched := True\<rparr>),
                               runtime_M := Some (LLVM_D_BuildRuntimeModule cfg)\<rparr>))))"
      unfolding s0_def nm_def .
  qed
qed

theorem toObjFile_emission_witness:
  "toObjFile host_config 0 (initial_state host_config app_with_global)
     = (Inr (),
        (initial_state host_config app_with_global)
          \<lparr>heap := (heap (initial_state host_config app_with_global))
             (0 := (heap (initial_state host_config app_with_global) 0)
                \<lparr>llvmTouched := True,
                 llvmValue := Some \<lparr>gv_name = ''_D10TypeInfo_x'',
                                    gv_valueType = NamedTy ''object.TypeInfo'',
                                    gv_isConstant = False, gv_linkage = ExternalLinkage,
                                    gv_hasInitializer = False\<rparr>\<rparr>)\<rparr>)
   \<and> llvmTouched (heap (snd (toObjFile host_config 0 (initial_state host_config app_with_global))) 0)
   \<and> toObjFile host_config 0 (snd (toObjFile host_config 0 (initial_state host_config app_with_global)))
      = (Inr (), snd (toObjFile host_config 0 (initial_state host_config app_with_global)))
   \<and> gIR_module (snd (toObjFile host_config 0 (initial_state host_config app_with_global)))
      = app_with_global"
proof -
  define s0 where "s0 = initial_state host_config app_with_global"
  define g where "g = \<lparr>gv_name = ''_D10TypeInfo_x'', gv_valueType = NamedTy ''object.TypeInfo'',
                       gv_isConstant = False, gv_linkage = ExternalLinkage,
                       gv_hasInitializer = False\<rparr>"
  define s1 where "s1 = s0\<lparr>heap := (heap s0)(0 := (heap s0 0)\<lparr>llvmTouched := True,
                                                              llvmValue := Some g\<rparr>)\<rparr>"
  have rt: "runtime_M s0 = None \<or> runtime_M s0 = Some (LLVM_D_BuildRuntimeModule host_config)"
    by (simp add: s0_def initial_state_def)
  have u: "\<not> llvmTouched (heap s0 0)"
    by (simp add: s0_def initial_state_def new_TypeInfoDeclaration_def)
  have n: "mangle host_config ((heap s0 0)\<lparr>llvmTouched := True\<rparr>) = ''_D10TypeInfo_x''"
    by (simp add: s0_def initial_state_def new_TypeInfoDeclaration_def host_config_def)
  have gm: "gIR_module s0 = app_with_global" by (simp add: s0_def initial_state_def)
  have f: "getNamedGlobal app_with_global ''_D10TypeInfo_x'' = Some g"
    by (simp add: getNamedGlobal_find app_with_global_def g_def)
  note th = toObjFile_emission[OF rt, of 0]
  from th u n gm f have c1: "toObjFile host_config 0 s0 = (Inr (), s1)"
    by (simp add: s1_def)
  with th have c2: "llvmTouched (heap s1 0)" and c3: "toObjFile host_config 0 s1 = (Inr (), s1)"
    by blast+
  have c4: "gIR_module s1 = app_with_global" by (simp add: s1_def gm)
  from c1 c2 c3 c4 show ?thesis
    unfolding s1_def g_def s0_def by simp
qed

text \<open>
  Claim C6 as stated fails for a descriptor whose global the module being generated
  does not hold yet: the first call of \<open>toObjFile\<close> sets the latch and then ends in
  the fatal exit of \<open>LLVM_D_GetRuntimeGlobal\<close>, without resolving any backing storage.
\<close>

theorem toObjFile_emission_counterexample:
  "\<not> llvmTouched (heap (initial_state host_config (new_Module ''app'')) 0)
   \<and> fst (toObjFile host_config 0 (initial_state host_config (new_Module ''app'')))
      = Inl (Fatal (''Runtime global '' @ [CHR 0x27] @ ''_D10TypeInfo_x'' @ [CHR 0x27]
                    @ '' was not found''))
   \<and> llvmValue (heap (snd (toObjFile host_config 0
        (initial_state host_config (new_Module ''app'')))) 0) = None
   \<and> mod_globals (gIR_module (snd (toObjFile host_config 0
        (initial_state host_config (new_Module ''app''))))) = []"
  by (simp add: toObjFile_def LLVM_D_GetRuntimeGlobal_def getNamedGlobal_find ensure_M_eq
      build_globals build_functions new_Module_def run_defs split: option.splits)

subsection \<open>The exact descriptor\<close>

lemma getTypeInfo_memo:
  "vtinfo s (merge cfg t) = Some a \<Longrightarrow> getTypeInfo cfg sc t s = (Inr (VarExp s a), s)"
  by (simp add: getTypeInfo_def)

text \<open>
  In the semantic pass, for a type with a pre-supplied descriptor, and for a type whose
  descriptor is attached already, \<open>getTypeInfo\<close> returns.
\<close>

lemma getTypeInfo_returns:
  assumes "sc \<noteq> None \<or> builtinTypeInfo (merge cfg t) \<or> vtinfo s (merge cfg t) \<noteq> None"
  shows "\<exists>e s1. getTypeInfo cfg sc t s = (Inr e, s1)"
  using assms
  by (cases "vtinfo s (merge cfg t)"; cases sc)
     (auto simp: getTypeInfo_def new_object_def Let_def)

lemma getTypeInfo_attached:
  assumes "getTypeInfo cfg sc t s = (Inr e, s1)"
  shows "vtinfo s1 (merge cfg t) = Some (var e) \<and> e = VarExp s1 (var e)
         \<and> (if vtinfo s (merge cfg t) = None then var e = next_free s \<and> next_free s1 = Suc (next_free s)
            else s1 = s)"
proof (cases "vtinfo s (merge cfg t)")
  case (Some a)
  with assms show ?thesis by (auto simp: getTypeInfo_def VarExp_def)
next
  case None
  define a where "a = next_free s"
  define s0 where "s0 = s\<lparr>heap := (heap s)(a := getTypeInfoDeclaration cfg (merge cfg t)), next_free := Suc a,
        vtinfo := (vtinfo s)(merge cfg t \<mapsto> a)\<rparr>"
  show ?thesis
  proof (cases "\<not> builtinTypeInfo (merge cfg t) \<and> sc = None")
    case True
    obtain r2 s2 where o: "toObjFile cfg a s0 = (r2, s2)" by (metis prod.exhaust)
    from toObjFile_frame[OF o] have "vtinfo s2 = vtinfo s0" "next_free s2 = next_free s0" by simp_all
    with assms None True o show ?thesis
      by (cases r2) (auto simp: getTypeInfo_def new_object_def Let_def VarExp_def s0_def a_def)
  next
    case False
    with assms None show ?thesis
      by (auto simp: getTypeInfo_def new_object_def Let_def VarExp_def split: option.splits if_splits)
  qed
qed

lemma getTypeInfo_frame:
  assumes "getTypeInfo cfg sc t s = (r, s1)"
  shows "internalTI s1 = internalTI s
       \<and> (case vtinfo s (merge cfg t) of
            Some a \<Rightarrow> s1 = s
          | None \<Rightarrow> vtinfo s1 = (vtinfo s)(merge cfg t \<mapsto> next_free s)
                    \<and> next_free s1 = Suc (next_free s))"
proof (cases "vtinfo s (merge cfg t)")
  case (Some a)
  with assms show ?thesis by (auto simp: getTypeInfo_def)
next
  case None
  define a where "a = next_free s"
  define s0 where "s0 = s\<lparr>heap := (heap s)(a := getTypeInfoDeclaration cfg (merge cfg t)), next_free := Suc a,
        vtinfo := (vtinfo s)(merge cfg t \<mapsto> a)\<rparr>"
  show ?thesis
  proof (cases "\<not> builtinTypeInfo (merge cfg t) \<and> sc = None")
    case True
    obtain r2 s2 where o: "toObjFile cfg a s0 = (r2, s2)" by (metis prod.exhaust)
    from toObjFile_frame[OF o] have "vtinfo s2 = vtinfo s0" "next_free s2 = next_free s0"
      "internalTI s2 = internalTI s0" by simp_all
    with assms None True o show ?thesis
      by (cases r2) (auto simp: getTypeInfo_def new_object_def Let_def s0_def a_def)
  next
    case False
    with assms None show ?thesis
      by (auto simp: getTypeInfo_def new_object_def Let_def split: option.splits if_splits)
  qed
qed

lemma getTypeInfo_apart:
  assumes ap: "descriptors_apart s" and g: "getTypeInfo cfg sc t s = (r, s1)"
  shows "descriptors_apart s1"
proof (cases "vtinfo s (merge cfg t)")
  case (Some a)
  with getTypeInfo_frame[OF g] ap show ?thesis by simp
next
  case None
  with getTypeInfo_frame[OF g] have i: "internalTI s1 = internalTI s"
    and v: "vtinfo s1 = (vtinfo s)(merge cfg t \<mapsto> next_free s)"
    and n: "next_free s1 = Suc (next_free s)" by simp_all
  from ap show ?thesis
    unfolding descriptors_apart_def i v n
    by (auto simp: less_Suc_eq)
qed

text \<open>
  Claim C1. For two types with the same merged type, a call of \<open>getTypeInfo\<close> on
  the first that returns has attached its descriptor to the merged type (a new one if
  none was attached), and a later call on the second returns that same descriptor and
  changes nothing: no second descriptor is constructed.
\<close>

theorem getTypeInfo_single_descriptor:
  assumes "merge cfg t1 = merge cfg t2"
      and "getTypeInfo cfg sc1 t1 s = (Inr e1, s1)"
  shows "vtinfo s1 (merge cfg t1) = Some (var e1)
       \<and> getTypeInfo cfg sc2 t2 s1 = (Inr e1, s1)
       \<and> (if vtinfo s (merge cfg t1) = None then var e1 = next_free s else s1 = s)"
proof -
  from getTypeInfo_attached[OF assms(2)]
  have a: "vtinfo s1 (merge cfg t1) = Some (var e1)" and e: "e1 = VarExp s1 (var e1)"
    and c: "if vtinfo s (merge cfg t1) = None then var e1 = next_free s \<and> next_free s1 = Suc (next_free s) else s1 = s"
    by simp_all
  from a assms(1) have "vtinfo s1 (merge cfg t2) = Some (var e1)" by simp
  from getTypeInfo_memo[OF this, of sc2] e have "getTypeInfo cfg sc2 t2 s1 = (Inr e1, s1)" by simp
  with a c show ?thesis by (simp split: if_splits)
qed

theorem getTypeInfo_single_descriptor_witness:
  "merge host_config (TypeStruct ''S'') = merge host_config (TypeStruct ''S'')
   \<and> descriptor_of (getTypeInfo host_config (Some \<lparr>importedFrom = 0\<rparr>) (TypeStruct ''S'')
        (initial_state host_config (new_Module ''app''))) = Some 0
   \<and> descriptor_of (getTypeInfo host_config None (TypeStruct ''S'')
        (snd (getTypeInfo host_config (Some \<lparr>importedFrom = 0\<rparr>) (TypeStruct ''S'')
           (initial_state host_config (new_Module ''app''))))) = Some 0
   \<and> snd (getTypeInfo host_config None (TypeStruct ''S'')
        (snd (getTypeInfo host_config (Some \<lparr>importedFrom = 0\<rparr>) (TypeStruct ''S'')
           (initial_state host_config (new_Module ''app'')))))
      = snd (getTypeInfo host_config (Some \<lparr>importedFrom = 0\<rparr>) (TypeStruct ''S'')
           (initial_state host_config (new_Module ''app'')))"
proof -
  define s0 where "s0 = initial_state host_config (new_Module ''app'')"
  define r where "r = getTypeInfo host_config (Some \<lparr>importedFrom = 0\<rparr>) (TypeStruct ''S'') s0"
  define e where "e = \<lparr>var = 0::nat, exp_type = TypeClass ''TypeInfo'' False\<rparr>"
  have h1: "merge host_config (TypeStruct ''S'') = merge host_config (TypeStruct ''S'')" by simp
  have "fst r = Inr e" by (simp add: r_def s0_def e_def run_defs)
  then have h2: "getTypeInfo host_config (Some \<lparr>importedFrom = 0\<rparr>) (TypeStruct ''S'') s0 = (Inr e, snd r)"
    by (simp add: r_def prod_eq_iff)
  from getTypeInfo_single_descriptor[OF h1 h2, of None]
  have c: "getTypeInfo host_config None (TypeStruct ''S'') (snd r) = (Inr e, snd r)" by blast
  have d1: "descriptor_of r = Some 0" using \<open>fst r = Inr e\<close> by (simp add: descriptor_of_def e_def)
  have d2: "descriptor_of (getTypeInfo host_config None (TypeStruct ''S'') (snd r)) = Some 0"
    by (simp add: c descriptor_of_def e_def)
  have d3: "snd (getTypeInfo host_config None (TypeStruct ''S'') (snd r)) = snd r"
    by (simp add: c)
  from h1 d1 d2 d3 show ?thesis unfolding r_def s0_def by blast
qed

subsection \<open>The canonicalized descriptor\<close>

lemma Linternal_shared:
  assumes "ty t' = ty t"
  shows "\<exists>e s1. Linternal cfg t s = (Inr e, s1) \<and> internalTI s1 (ty t) = Some (var e)
           \<and> Linternal cfg t' s1 = (Inr e, s1)"
  using assms
  by (cases "internalTI s (ty t)") (auto simp: Linternal_def new_object_def Let_def VarExp_def)

lemma Linternal_apart:
  assumes ap: "descriptors_apart s" and g: "Linternal cfg t s = (r, s1)"
  shows "descriptors_apart s1"
proof (cases "internalTI s (ty t)")
  case (Some a)
  with g ap show ?thesis by (auto simp: Linternal_def)
next
  case None
  with g have i: "internalTI s1 = (internalTI s)(ty t \<mapsto> next_free s)"
    and v: "vtinfo s1 = vtinfo s" and n: "next_free s1 = Suc (next_free s)"
    by (auto simp: Linternal_def new_object_def Let_def)
  from ap show ?thesis
    unfolding descriptors_apart_def i v n
    by (auto simp: less_Suc_eq)
qed

lemma getInternalTypeInfo_apart:
  assumes ap: "descriptors_apart s" and g: "getInternalTypeInfo cfg sc t s = (r, s1)"
  shows "descriptors_apart s1"
  using g getTypeInfo_apart[OF ap] Linternal_apart[OF ap]
  by (auto simp: getInternalTypeInfo_def Let_def split: Type.splits if_splits)

lemma initial_state_apart: "descriptors_apart (initial_state cfg target)"
  by (simp add: descriptors_apart_def initial_state_def)

lemma interface_exact:
  assumes ap: "descriptors_apart s"
      and g: "getTypeInfo cfg sc t s = (Inr e, s1)"
  shows "internalTI s1 k \<noteq> Some (var e)"
proof -
  from getTypeInfo_attached[OF g] have a: "vtinfo s1 (merge cfg t) = Some (var e)" by simp
  from getTypeInfo_apart[OF ap g] have "descriptors_apart s1" .
  with a show ?thesis by (auto simp: descriptors_apart_def)
qed

text \<open>
  Claim C5, amended. For every element type \<open>T\<close> that is not a class type, the
  canonicalized descriptor of a static array of \<open>T\<close> is that of the dynamic array
  of \<open>T\<close>: the two calls agree on every state, and a call for the dynamic array
  after one for the static array returns the same descriptor and changes nothing.
  Any two function types share one placeholder, created by the first call and
  returned unchanged by the second. For an interface type the answer is never one of
  the shared placeholders.
\<close>

theorem collapse_rules:
  assumes nc: "ty T \<noteq> Tclass" and ap: "descriptors_apart s"
  shows "getInternalTypeInfo cfg sc (TypeSArray T n) s = getInternalTypeInfo cfg sc (TypeDArray T) s
       \<and> (\<forall>e s1. getInternalTypeInfo cfg sc (TypeSArray T n) s = (Inr e, s1)
            \<longrightarrow> getInternalTypeInfo cfg sc2 (TypeDArray T) s1 = (Inr e, s1))
       \<and> (\<exists>e s1. getInternalTypeInfo cfg sc (TypeFunction ps r) s = (Inr e, s1)
            \<and> internalTI s1 Tfunction = Some (var e)
            \<and> getInternalTypeInfo cfg sc2 (TypeFunction ps2 r2) s1 = (Inr e, s1))
       \<and> (\<forall>e s1 k. getInternalTypeInfo cfg sc (TypeClass c True) s = (Inr e, s1)
            \<longrightarrow> internalTI s1 k \<noteq> Some (var e))"
proof -
  have sa: "\<And>sc s. getInternalTypeInfo cfg sc (TypeSArray T n) s = getTypeInfo cfg sc (TypeDArray T) s"
    by (simp add: getInternalTypeInfo_def arrayOf_def)
  have da: "\<And>sc s. getInternalTypeInfo cfg sc (TypeDArray T) s = getTypeInfo cfg sc (TypeDArray T) s"
    using nc by (simp add: getInternalTypeInfo_def)
  have p1: "getInternalTypeInfo cfg sc (TypeSArray T n) s = getInternalTypeInfo cfg sc (TypeDArray T) s"
    by (simp add: sa da)
  have p2: "\<forall>e s1. getInternalTypeInfo cfg sc (TypeSArray T n) s = (Inr e, s1)
            \<longrightarrow> getInternalTypeInfo cfg sc2 (TypeDArray T) s1 = (Inr e, s1)"
  proof (intro allI impI)
    fix e s1 assume "getInternalTypeInfo cfg sc (TypeSArray T n) s = (Inr e, s1)"
    then have g: "getTypeInfo cfg sc (TypeDArray T) s = (Inr e, s1)" by (simp add: sa)
    from getTypeInfo_attached[OF g] have "vtinfo s1 (merge cfg (TypeDArray T)) = Some (var e)"
      and "e = VarExp s1 (var e)" by simp_all
    with getTypeInfo_memo[of s1 cfg "TypeDArray T" "var e" sc2]
    show "getInternalTypeInfo cfg sc2 (TypeDArray T) s1 = (Inr e, s1)" by (simp add: da)
  qed
  have fn: "\<And>sc ps r s. getInternalTypeInfo cfg sc (TypeFunction ps r) s = Linternal cfg (TypeFunction ps r) s"
    by (simp add: getInternalTypeInfo_def)
  have p3: "\<exists>e s1. getInternalTypeInfo cfg sc (TypeFunction ps r) s = (Inr e, s1)
            \<and> internalTI s1 Tfunction = Some (var e)
            \<and> getInternalTypeInfo cfg sc2 (TypeFunction ps2 r2) s1 = (Inr e, s1)"
    using Linternal_shared[of "TypeFunction ps2 r2" "TypeFunction ps r" cfg s] by (simp add: fn)
  have p4: "\<forall>e s1 k. getInternalTypeInfo cfg sc (TypeClass c True) s = (Inr e, s1)
            \<longrightarrow> internalTI s1 k \<noteq> Some (var e)"
    using interface_exact[OF ap] by (simp add: getInternalTypeInfo_def)
  from p1 p2 p3 p4 show ?thesis by blast
qed

theorem collapse_rules_witness:
  "ty (TypeBasic 5) \<noteq> Tclass
   \<and> descriptors_apart (initial_state host_config (new_Module ''app''))
   \<and> getInternalTypeInfo host_config (Some \<lparr>importedFrom = 0\<rparr>) (TypeSArray (TypeBasic 5) 3)
        (initial_state host_config (new_Module ''app''))
      = getInternalTypeInfo host_config (Some \<lparr>importedFrom = 0\<rparr>) (TypeDArray (TypeBasic 5))
        (initial_state host_config (new_Module ''app''))
   \<and> descriptor_of (getInternalTypeInfo host_config (Some \<lparr>importedFrom = 0\<rparr>)
        (TypeSArray (TypeBasic 5) 3) (initial_state host_config (new_Module ''app''))) = Some 0
   \<and> descriptor_of (getInternalTypeInfo host_config None (TypeDArray (TypeBasic 5))
        (snd (getInternalTypeInfo host_config (Some \<lparr>importedFrom = 0\<rparr>)
           (TypeSArray (TypeBasic 5) 3) (initial_state host_config (new_Module ''app''))))) = Some 0
   \<and> (\<exists>e s1. getInternalTypeInfo host_config (Some \<lparr>importedFrom = 0\<rparr>)
           (TypeFunction [] (TypeBasic 5)) (initial_state host_config (new_Module ''app''))
           = (Inr e, s1)
         \<and> getInternalTypeInfo host_config None (TypeFunction [TypeBasic 5] (TypeBasic 1)) s1
           = (Inr e, s1))
   \<and> descriptor_of (getInternalTypeInfo host_config (Some \<lparr>importedFrom = 0\<rparr>)
        (TypeClass ''I'' True) (initial_state host_config (new_Module ''app''))) = Some 0
   \<and> (\<forall>k. internalTI (snd (getInternalTypeInfo host_config (Some \<lparr>importedFrom = 0\<rparr>)
        (TypeClass ''I'' True) (initial_state host_config (new_Module ''app'')))) k \<noteq> Some 0)"
proof -
  define s0 where "s0 = initial_state host_config (new_Module ''app'')"
  define sc where "sc = Some \<lparr>importedFrom = 0::nat\<rparr>"
  define e where "e = \<lparr>var = 0::nat, exp_type = TypeClass ''TypeInfo'' False\<rparr>"
  define ra where "ra = getInternalTypeInfo host_config sc (TypeSArray (TypeBasic 5) 3) s0"
  define ri where "ri = getInternalTypeInfo host_config sc (TypeClass ''I'' True) s0"
  have h1: "ty (TypeBasic 5) \<noteq> Tclass" by simp
  have h2: "descriptors_apart s0" by (simp add: s0_def initial_state_apart)
  have "fst ra = Inr e" by (simp add: ra_def s0_def sc_def e_def run_defs)
  then have ha: "getInternalTypeInfo host_config sc (TypeSArray (TypeBasic 5) 3) s0 = (Inr e, snd ra)"
    by (simp add: ra_def prod_eq_iff)
  have "fst ri = Inr e" by (simp add: ri_def s0_def sc_def e_def run_defs)
  then have hi: "getInternalTypeInfo host_config sc (TypeClass ''I'' True) s0 = (Inr e, snd ri)"
    by (simp add: ri_def prod_eq_iff)
  note th = collapse_rules[OF h1 h2, of host_config sc 3 None "[]" "TypeBasic 5"
      "[TypeBasic 5]" "TypeBasic 1" "''I''"]
  from th have c1: "getInternalTypeInfo host_config sc (TypeSArray (TypeBasic 5) 3) s0
      = getInternalTypeInfo host_config sc (TypeDArray (TypeBasic 5)) s0" by blast
  from th ha have c2: "getInternalTypeInfo host_config None (TypeDArray (TypeBasic 5)) (snd ra) = (Inr e, snd ra)"
    by blast
  from th have c3: "\<exists>e s1. getInternalTypeInfo host_config sc
           (TypeFunction [] (TypeBasic 5)) s0 = (Inr e, s1)
         \<and> getInternalTypeInfo host_config None (TypeFunction [TypeBasic 5] (TypeBasic 1)) s1
           = (Inr e, s1)" by blast
  from th hi have c4: "\<forall>k. internalTI (snd ri) k \<noteq> Some (var e)" by blast
  have d1: "descriptor_of ra = Some 0" using \<open>fst ra = Inr e\<close>
    by (simp add: descriptor_of_def e_def)
  have d2: "descriptor_of (getInternalTypeInfo host_config None (TypeDArray (TypeBasic 5)) (snd ra))
            = Some 0"
    by (simp add: c2 descriptor_of_def e_def)
  have d3: "descriptor_of ri = Some 0" using \<open>fst ri = Inr e\<close>
    by (simp add: descriptor_of_def e_def)
  have d4: "\<forall>k. internalTI (snd ri) k \<noteq> Some 0" using c4 by (simp add: e_def)
  from h1 h2 c1 d1 d2 c3 d3 d4 show ?thesis unfolding ra_def ri_def s0_def sc_def by blast
qed

text \<open>
  Claim C5 as stated fails for a class element type: the static array of a class is
  answered with the exact descriptor of the dynamic array of that class, the dynamic
  array itself with the shared placeholder of the array kind, whichever comes first.
\<close>

theorem collapse_rules_counterexample:
  "descriptor_of (getInternalTypeInfo host_config (Some \<lparr>importedFrom = 0\<rparr>)
        (TypeSArray (TypeClass ''C'' False) 4) (initial_state host_config (new_Module ''app'')))
     = Some 0
   \<and> descriptor_of (getInternalTypeInfo host_config (Some \<lparr>importedFrom = 0\<rparr>)
        (TypeDArray (TypeClass ''C'' False))
        (snd (getInternalTypeInfo host_config (Some \<lparr>importedFrom = 0\<rparr>)
           (TypeSArray (TypeClass ''C'' False) 4) (initial_state host_config (new_Module ''app'')))))
     = Some 1
   \<and> descriptor_of (getInternalTypeInfo host_config (Some \<lparr>importedFrom = 0\<rparr>)
        (TypeDArray (TypeClass ''C'' False)) (initial_state host_config (new_Module ''app'')))
     = Some 0
   \<and> descriptor_of (getInternalTypeInfo host_config (Some \<lparr>importedFrom = 0\<rparr>)
        (TypeSArray (TypeClass ''C'' False) 4)
        (snd (getInternalTypeInfo host_config (Some \<lparr>importedFrom = 0\<rparr>)
           (TypeDArray (TypeClass ''C'' False)) (initial_state host_config (new_Module ''app'')))))
     = Some 1"
  by (simp add: run_defs)

end
